theory Spec2Isabelle
  imports Main "HOL-Library.Word"
begin

unbundle bit_operations_syntax

section \<open>Data model\<close>

text \<open>
  The two source files, \<^verbatim>\<open>video/vdu_buffered.h\<close> and \<^verbatim>\<open>video/vdu_audio.h\<close>, are member
  functions of \<^verbatim>\<open>VDUStreamProcessor\<close> over three stores: the blocks (shared through
  \<^verbatim>\<open>std::shared_ptr\<close>), the buffers (\<^verbatim>\<open>unordered_map\<close> from a 16-bit id to a vector of
  block pointers) and the samples.

  A block pointer is an index into the list \<open>heap\<close>; allocating appends to that list, so
  the new pointer is \<open>length heap\<close> and no earlier block moves. Two buffers that hold the
  same index share the block, as two \<^verbatim>\<open>shared_ptr\<close> to one \<^verbatim>\<open>BufferStream\<close> do. A block no
  pointer reaches any more stays in the list: nothing can read it, which is what freeing
  it amounts to.

  Allocation. The sources test in three places whether an allocation has given them a
  pointer: \<^verbatim>\<open>if (!buffer)\<close> in bufferCreate, \<^verbatim>\<open>if (streamProcessor)\<close> in bufferCall and
  \<^verbatim>\<open>if (sample)\<close> in createSampleFromBuffer. Nothing in the two sources decides whether an
  allocation gets its memory, so the state holds the answers: \<open>allocations\<close> lists the
  outcomes of the coming allocations that are tested, the next one first; past the end
  of the list they succeed. Everywhere else the sources use the pointer untested
  (bufferWrite, bufferJump, the envelopes), and there the model follows them on the path
  where the pointer is good.
\<close>

type_synonym u8 = "8 word"
type_synonym addr = nat

text \<open>
  \<^verbatim>\<open>BufferStream\<close> and its subclass \<^verbatim>\<open>WritableBufferStream\<close>: the bytes (\<^verbatim>\<open>getBuffer()\<close>,
  \<^verbatim>\<open>size()\<close> is their number) and what \<^verbatim>\<open>isWritable()\<close> answers.
\<close>

record block =
  bytes :: "u8 list"
  writable :: bool

text \<open>
  \<^verbatim>\<open>struct AdvancedOffset\<close>. Both fields are 32 bits wide on the target; they are natural
  numbers here, and the value \<^verbatim>\<open>-1\<close> that the source stores into them is \<open>2^32 - 1\<close>. The
  arithmetic the source does on them never wraps: \<^verbatim>\<open>blockOffset -= size\<close> runs under
  \<^verbatim>\<open>blockOffset >= size\<close>, and both increments run under a bound by a size.
\<close>

record AdvancedOffset =
  blockOffset :: nat
  blockIndex :: nat

definition minus_one_u32 :: nat where
  "minus_one_u32 = 4294967295"

definition offset_zero :: AdvancedOffset where
  "offset_zero = \<lparr>blockOffset = 0, blockIndex = 0\<rparr>"

text \<open>
  The input stream of a processor. The top-level processor reads the serial link: the
  list holds the bytes that arrive before the read timeout. A processor running a buffer
  reads a \<^verbatim>\<open>MultiBufferStream\<close>: the block pointers it was built over and its position.
\<close>

datatype in_stream =
    Serial "u8 list"
  | MultiBufferStream "addr list" AdvancedOffset

text \<open>The output stream pointer: null, the serial port, or a block of a buffer.\<close>

datatype out_stream = Null_stream | Port_stream | Block_stream addr

text \<open>\<^verbatim>\<open>AudioSample\<close>: the block pointers it took from the buffer, and its metadata.\<close>

record AudioSample =
  sample_blocks :: "addr list"
  format :: nat
  sampleRate :: nat
  baseFrequency :: nat
  repeatStart :: nat
  repeatLength :: nat

text \<open>
  An entry of the sample store is a \<^verbatim>\<open>std::shared_ptr<AudioSample>\<close>: it points to a sample,
  or it is null. \<^verbatim>\<open>samples[id]\<close> on an id that has no entry adds a null one.
\<close>

datatype sample_ptr = Null_sample | Sample AudioSample

text \<open>The state of one audio channel, as the spec's state machine names it.\<close>

datatype chan_state = Disabled | Idle | Playing | Releasing

datatype packet_code = PACKET_AUDIO

text \<open>
  The processor and the stores it works on. \<open>id_cur\<close> is the member \<^verbatim>\<open>id\<close>: 65535 for the
  top-level processor, the buffer being run otherwise. \<open>sent\<close> lists the calls of
  \<^verbatim>\<open>send_packet\<close>, oldest first. \<open>psram\<close> is what fresh memory holds before anything
  is written to it, and \<open>allocations\<close> the outcomes of the coming tested allocations.
  The bitmap store (\<^verbatim>\<open>clearBitmap\<close>, \<^verbatim>\<open>resetBitmaps\<close>) is not part of the
  state: no function modelled here reads it.
\<close>

record state =
  inputStream :: in_stream
  outputStream :: out_stream
  originalOutputStream :: out_stream
  id_cur :: nat
  heap :: "block list"
  buffers :: "nat \<Rightarrow> addr list option"
  samples :: "nat \<Rightarrow> sample_ptr option"
  channels :: "nat \<Rightarrow> chan_state"
  sent :: "(packet_code \<times> u8 list) list"
  psram :: "nat \<Rightarrow> u8"
  allocations :: "bool list"

definition block_at :: "block list \<Rightarrow> addr \<Rightarrow> block" where
  "block_at h a = (if a < length h then h ! a else \<lparr>bytes = [], writable = False\<rparr>)"

definition block_size :: "block list \<Rightarrow> addr \<Rightarrow> nat" where
  "block_size h a = length (bytes (block_at h a))"

section \<open>Addressing a byte of a buffer\<close>

text \<open>
  The loop that opens both getBufferByte and setBufferByte:
  \<^verbatim>\<open>while (offset.blockIndex < buffer.size() && offset.blockOffset >= buffer[offset.blockIndex]->size())\<close>
  subtracts the block's size and moves to the next block.
\<close>

function find_block :: "block list \<Rightarrow> addr list \<Rightarrow> AdvancedOffset \<Rightarrow> AdvancedOffset" where
  "find_block h buffer offset =
     (if blockIndex offset < length buffer
         \<and> block_size h (buffer ! blockIndex offset) \<le> blockOffset offset
      then find_block h buffer
             \<lparr>blockOffset = blockOffset offset - block_size h (buffer ! blockIndex offset),
              blockIndex = Suc (blockIndex offset)\<rparr>
      else offset)"
  by pat_completeness auto
termination
  by (relation "measure (\<lambda>(h, buffer, offset). length buffer - blockIndex offset)") auto

declare find_block.simps [simp del]

text \<open>
  getBufferByte returns the byte, or \<^verbatim>\<open>-1\<close> when the offset is not in the buffer; the
  offset is a reference parameter, so the model returns it too. \<^verbatim>\<open>iterate\<close> is false where
  a call leaves it out.
\<close>

definition getBufferByte :: "block list \<Rightarrow> addr list \<Rightarrow> AdvancedOffset \<Rightarrow> bool \<Rightarrow> int \<times> AdvancedOffset" where
  "getBufferByte h buffer offset iterate =
     (let offset = find_block h buffer offset in
      if length buffer \<le> blockIndex offset then (- 1, offset)
      else (uint (bytes (block_at h (buffer ! blockIndex offset)) ! blockOffset offset),
            if iterate then offset\<lparr>blockOffset := Suc (blockOffset offset)\<rparr> else offset))"

text \<open>
  setBufferByte takes a \<^verbatim>\<open>uint8_t\<close>: the caller's \<^verbatim>\<open>int\<close> is cut to its low 8 bits, which
  is \<open>word_of_int\<close>. It returns whether the byte was stored, the blocks and the offset.
\<close>

definition setBufferByte :: "int \<Rightarrow> block list \<Rightarrow> addr list \<Rightarrow> AdvancedOffset \<Rightarrow> bool
    \<Rightarrow> bool \<times> block list \<times> AdvancedOffset" where
  "setBufferByte v h buffer offset iterate =
     (let offset = find_block h buffer offset in
      if length buffer \<le> blockIndex offset then (False, h, offset)
      else
        (let a = buffer ! blockIndex offset;
             b = block_at h a
         in (True,
             h[a := b\<lparr>bytes := (bytes b)[blockOffset offset := word_of_int v]\<rparr>],
             if iterate then offset\<lparr>blockOffset := Suc (blockOffset offset)\<rparr> else offset)))"

section \<open>Reading the input stream\<close>

text \<open>
  Modelled from the spec: \<^verbatim>\<open>multi_buffer_stream.h\<close> is not among the sources. The spec has
  CALL instantiate "a fresh multi-block input stream over buffers[target]", seek it "to
  offset if non-zero", and has a block index past the last block be "an invalid address
  that terminates further reads cleanly". A stream is built at the start of its blocks,
  seekTo sets its position, and a position is resolved to a block as an AdvancedOffset
  is. bufferJump casts its input stream to \<^verbatim>\<open>MultiBufferStream\<close> before the seek, on the
  ground that every processor with an id other than 65535 was built by bufferCall over
  one; the serial stream has no seek, and the model leaves it as it is.
\<close>

definition new_MultiBufferStream :: "addr list \<Rightarrow> in_stream" where
  "new_MultiBufferStream streams = MultiBufferStream streams offset_zero"

fun seekTo :: "in_stream \<Rightarrow> nat \<Rightarrow> nat \<Rightarrow> in_stream" where
  "seekTo (MultiBufferStream streams pos) position index =
     MultiBufferStream streams \<lparr>blockOffset = position, blockIndex = index\<rparr>"
| "seekTo (Serial bs) position index = Serial bs"

text \<open>
  Modelled from the spec: \<^verbatim>\<open>available()\<close> and \<^verbatim>\<open>read()\<close> of the input stream. The number of
  bytes that can be read at once (for a buffer stream those left in the block it is in,
  none only when it is past its last byte), and the next byte, or \<^verbatim>\<open>-1\<close> when there is
  none.
\<close>

fun available :: "block list \<Rightarrow> in_stream \<Rightarrow> nat" where
  "available h (Serial bs) = length bs"
| "available h (MultiBufferStream streams pos) =
     (let pos = find_block h streams pos in
      if length streams \<le> blockIndex pos then 0
      else block_size h (streams ! blockIndex pos) - blockOffset pos)"

fun stream_read :: "block list \<Rightarrow> in_stream \<Rightarrow> int \<times> in_stream" where
  "stream_read h (Serial []) = (- 1, Serial [])"
| "stream_read h (Serial (b # bs)) = (uint b, Serial bs)"
| "stream_read h (MultiBufferStream streams pos) =
     (case getBufferByte h streams pos True of (v, pos) \<Rightarrow> (v, MultiBufferStream streams pos))"

text \<open>
  Modelled from the spec: the timed reads of \<^verbatim>\<open>vdu_stream_processor.h\<close>, which is not
  among the sources. "Multi-byte integers are little-endian", and "a -1 return indicates
  either end-of-stream or timeout". A read that fails part way has consumed the bytes it
  got.
\<close>

definition readByte_t :: "state \<Rightarrow> int \<times> state" where
  "readByte_t s =
     (case stream_read (heap s) (inputStream s) of (v, i) \<Rightarrow> (v, s\<lparr>inputStream := i\<rparr>))"

definition readWord_t :: "state \<Rightarrow> int \<times> state" where
  "readWord_t s =
     (case readByte_t s of (l, s) \<Rightarrow>
        if 0 \<le> l then
          (case readByte_t s of (h, s) \<Rightarrow>
             if 0 \<le> h then (push_bit 8 h OR l, s) else (- 1, s))
        else (- 1, s))"

definition read24_t :: "state \<Rightarrow> int \<times> state" where
  "read24_t s =
     (case readByte_t s of (l, s) \<Rightarrow>
        if 0 \<le> l then
          (case readByte_t s of (m, s) \<Rightarrow>
             if 0 \<le> m then
               (case readByte_t s of (h, s) \<Rightarrow>
                  if 0 \<le> h then (push_bit 16 h OR push_bit 8 m OR l, s) else (- 1, s))
             else (- 1, s))
        else (- 1, s))"

text \<open>
  Modelled from the spec: \<^verbatim>\<open>readIntoBuffer\<close>, of which the spec says that it "reads length
  bytes", and that "on partial read (stream exhausted or timeout)" the remaining count is
  returned. The model returns the bytes it got, the count that remains and the state.
\<close>

fun read_bytes :: "nat \<Rightarrow> state \<Rightarrow> u8 list \<times> state" where
  "read_bytes 0 s = ([], s)"
| "read_bytes (Suc n) s =
     (case readByte_t s of (v, s') \<Rightarrow>
        if v = - 1 then ([], s')
        else (case read_bytes n s' of (bs, s'') \<Rightarrow> (word_of_int v # bs, s'')))"

definition readIntoBuffer :: "nat \<Rightarrow> state \<Rightarrow> u8 list \<times> nat \<times> state" where
  "readIntoBuffer len s =
     (case read_bytes len s of (bs, s') \<Rightarrow> (bs, len - length bs, s'))"

text \<open>
  Modelled from the spec: \<^verbatim>\<open>resolveBufferId\<close>, "if id == 65535 return current (the buffer
  currently being executed); else return id". The top-level processor has no current
  buffer, and "if the top-level interpreter (current == 65535) receives id == 65535 as a
  call target, the call is a no-op": the callers compare the result with \<^verbatim>\<open>-1\<close> and
  return, so that is what the function gives them there. The callers also pass it the
  result of a read, which may be \<^verbatim>\<open>-1\<close> itself.
\<close>

definition resolveBufferId :: "int \<Rightarrow> nat \<Rightarrow> int" where
  "resolveBufferId bufferId currentId =
     (if bufferId = 65535 then (if currentId = 65535 then - 1 else int currentId)
      else bufferId)"

section \<open>The buffer store\<close>

text \<open>\<^verbatim>\<open>buffers[id]\<close>: the vector under the key, created empty when the key is new.\<close>

definition buffer_of :: "state \<Rightarrow> nat \<Rightarrow> addr list" where
  "buffer_of s bufferId = (case buffers s bufferId of None \<Rightarrow> [] | Some b \<Rightarrow> b)"

text \<open>
  bufferWrite. The block it allocates is reachable only from the local \<^verbatim>\<open>bufferStream\<close>
  until the \<^verbatim>\<open>push_back\<close>, so the model adds it to the blocks there; on the two early
  returns the block dies with the call.
\<close>

definition bufferWrite :: "nat \<Rightarrow> nat \<Rightarrow> state \<Rightarrow> nat \<times> state" where
  "bufferWrite bufferId len s =
     (case readIntoBuffer len s of (data, remaining, s) \<Rightarrow>
        if 0 < remaining then (remaining, s)
        else if bufferId = 65535 then (remaining, s)
        else
          (remaining,
           s\<lparr>heap := heap s @ [\<lparr>bytes = data, writable = False\<rparr>],
             buffers := (buffers s)(bufferId \<mapsto> buffer_of s bufferId @ [length (heap s)])\<rparr>))"

text \<open>
  Modelled from the spec: \<^verbatim>\<open>clearSample\<close> and \<^verbatim>\<open>resetSamples\<close> of \<^verbatim>\<open>agon_audio.h\<close>, which is
  not among the sources. A buffer clear "notifies bitmap and sample collaborators to
  reset" or "to clear those specific IDs", and "clear(65535) cancels all notes on all
  channels and drops all samples". clearSample returns whether there was a sample.
\<close>

definition clearSample :: "nat \<Rightarrow> state \<Rightarrow> nat \<times> state" where
  "clearSample sampleId s =
     (case samples s sampleId of
        None \<Rightarrow> (0, s)
      | Some x \<Rightarrow> (1, s\<lparr>samples := (samples s)(sampleId := None)\<rparr>))"

definition resetSamples :: "state \<Rightarrow> state" where
  "resetSamples s = s\<lparr>samples := (\<lambda>k. None)\<rparr>"

definition bufferClear :: "nat \<Rightarrow> state \<Rightarrow> state" where
  "bufferClear bufferId s =
     (if bufferId = 65535 then resetSamples (s\<lparr>buffers := (\<lambda>k. None)\<rparr>)
      else
        (case buffers s bufferId of
           None \<Rightarrow> s
         | Some b \<Rightarrow> snd (clearSample bufferId (s\<lparr>buffers := (buffers s)(bufferId := None)\<rparr>))))"

text \<open>
  The allocators (\<^verbatim>\<open>make_shared_psram\<close>, \<^verbatim>\<open>make_unique_psram\<close>) are not among the sources:
  what they return is a parameter, held in the state. An allocation that the source
  tests takes its outcome from the head of \<open>allocations\<close>: \<open>True\<close> is a pointer, \<open>False\<close>
  the null pointer. The spec has the case as the error kind "AllocFail - block allocation
  failed. Effect: abort the opcode; no partial buffer installed".
\<close>

definition allocate :: "state \<Rightarrow> bool \<times> state" where
  "allocate s =
     (case allocations s of
        [] \<Rightarrow> (True, s)
      | ok # rest \<Rightarrow> (ok, s\<lparr>allocations := rest\<rparr>))"

text \<open>
  bufferCreate returns the pointer to the new block, or null: for the id 65535, for an id
  that has a buffer, and when the allocation fails (\<^verbatim>\<open>if (!buffer)\<close>). The block holds
  whatever the fresh memory holds.
\<close>

definition bufferCreate :: "nat \<Rightarrow> nat \<Rightarrow> state \<Rightarrow> addr option \<times> state" where
  "bufferCreate bufferId size' s =
     (if bufferId = 65535 then (None, s)
      else if buffers s bufferId \<noteq> None then (None, s)
      else
        (case allocate s of (buffer, s) \<Rightarrow>
           if \<not> buffer then (None, s)
           else
             (Some (length (heap s)),
              s\<lparr>heap := heap s @ [\<lparr>bytes = map (psram s) [0..<size'], writable = True\<rparr>],
                buffers := (buffers s)(bufferId \<mapsto> buffer_of s bufferId @ [length (heap s)])\<rparr>)))"

text \<open>\<^verbatim>\<open>memset(p->getBuffer(), 0, n)\<close> on a block.\<close>

definition memset_zero :: "addr \<Rightarrow> nat \<Rightarrow> state \<Rightarrow> state" where
  "memset_zero a n s =
     s\<lparr>heap := (heap s)[a := (block_at (heap s) a)
                  \<lparr>bytes := replicate n 0 @ drop n (bytes (block_at (heap s) a))\<rparr>]\<rparr>"

text \<open>
  The case \<^verbatim>\<open>BUFFERED_CREATE\<close> of vdu_sys_buffered, after the buffer id and the command
  byte have been read.
\<close>

definition buffered_create :: "nat \<Rightarrow> state \<Rightarrow> state" where
  "buffered_create bufferId s =
     (case readWord_t s of (size', s) \<Rightarrow>
        if size' = - 1 then s
        else
          (case bufferCreate bufferId (nat size') s of
             (Some buffer, s) \<Rightarrow> memset_zero buffer (nat size') s
           | (None, s) \<Rightarrow> s))"

definition setOutputStream :: "nat \<Rightarrow> state \<Rightarrow> state" where
  "setOutputStream bufferId s =
     (if bufferId = 65535 then s\<lparr>outputStream := Null_stream\<rparr>
      else if bufferId = 0 then s\<lparr>outputStream := originalOutputStream s\<rparr>
      else
        (case buffers s bufferId of
           None \<Rightarrow> s
         | Some b \<Rightarrow>
             if b = [] then s
             else if writable (block_at (heap s) (hd b)) then s\<lparr>outputStream := Block_stream (hd b)\<rparr>
             else s))"

section \<open>Call and jump\<close>

text \<open>
  bufferCall builds a processor over the target buffer and runs it to the end of its
  input (\<^verbatim>\<open>processAllAvailable\<close>). The command loop is not among the sources, so running
  the nested processor is a parameter: it is given the three arguments of the constructor
  and the state, and returns the state the nested run leaves. The nested processor has
  members of its own, so the caller's input stream, output streams and id are what they
  were before the call. When the processor cannot be allocated nothing is run
  (\<^verbatim>\<open>if (streamProcessor)\<close>).
\<close>

type_synonym nested_run = "in_stream \<Rightarrow> out_stream \<Rightarrow> nat \<Rightarrow> state \<Rightarrow> state"

definition call_nested :: "nested_run \<Rightarrow> in_stream \<Rightarrow> nat \<Rightarrow> state \<Rightarrow> state" where
  "call_nested run stream bufferId s =
     (run stream (outputStream s) bufferId s)
       \<lparr>inputStream := inputStream s, outputStream := outputStream s,
        originalOutputStream := originalOutputStream s, id_cur := id_cur s\<rparr>"

text \<open>
  \<^verbatim>\<open>if (offset.blockOffset != 0 || offset.blockIndex != 0) multiBufferStream->seekTo(...)\<close>,
  as both bufferCall and bufferJump have it.
\<close>

definition stream_at :: "addr list \<Rightarrow> AdvancedOffset \<Rightarrow> in_stream" where
  "stream_at streams offset =
     (if blockOffset offset \<noteq> 0 \<or> blockIndex offset \<noteq> 0
      then seekTo (new_MultiBufferStream streams) (blockOffset offset) (blockIndex offset)
      else new_MultiBufferStream streams)"

function bufferCall :: "nested_run \<Rightarrow> nat \<Rightarrow> AdvancedOffset \<Rightarrow> state \<Rightarrow> state"
  and bufferJump :: "nested_run \<Rightarrow> nat \<Rightarrow> AdvancedOffset \<Rightarrow> state \<Rightarrow> state" where
  "bufferCall run callBufferId offset s =
     (let bufferId = resolveBufferId (int callBufferId) (id_cur s) in
      if bufferId = - 1 then s
      else
        (case buffers s (nat bufferId) of
           None \<Rightarrow> s
         | Some streams \<Rightarrow>
             if id_cur s \<noteq> 65535 \<and> available (heap s) (inputStream s) = 0
             then bufferJump run (nat bufferId) offset s
             else
               (case allocate s of (streamProcessor, s) \<Rightarrow>
                  if streamProcessor
                  then call_nested run (stream_at streams offset) (nat bufferId) s
                  else s)))"
| "bufferJump run bufferId offset s =
     (if id_cur s = 65535 then bufferCall run bufferId offset s
      else if bufferId = 65535 \<or> bufferId = id_cur s
      then s\<lparr>inputStream := seekTo (inputStream s) (blockOffset offset) (blockIndex offset)\<rparr>
      else
        (case buffers s bufferId of
           None \<Rightarrow> s
         | Some streams \<Rightarrow> s\<lparr>inputStream := stream_at streams offset\<rparr>))"
  by pat_completeness auto
termination
  by (relation "measure (\<lambda>x. case x of
          Inl (run, b, offset, s) \<Rightarrow> (if id_cur s \<noteq> 65535 then 1 else 0)
        | Inr (run, b, offset, s) \<Rightarrow> (if id_cur s = 65535 then 1 else 0))") auto

declare bufferCall.simps [simp del] bufferJump.simps [simp del]

section \<open>Constants\<close>

text \<open>
  The header \<^verbatim>\<open>agon.h\<close> that defines the command codes and the flag bits is not among the
  sources. Modelled from the spec: the codes the spec gives a value are constants here
  (the ADJUST operations, "NOT=0, NEG=1, SET=2, ADD=3, ADC=4, AND=5, OR=6, XOR=7", and the
  audio command codes of its table).
\<close>

definition ADJUST_NOT :: int where "ADJUST_NOT = 0"
definition ADJUST_NEG :: int where "ADJUST_NEG = 1"
definition ADJUST_SET :: int where "ADJUST_SET = 2"
definition ADJUST_ADD :: int where "ADJUST_ADD = 3"
definition ADJUST_ADD_CARRY :: int where "ADJUST_ADD_CARRY = 4"
definition ADJUST_AND :: int where "ADJUST_AND = 5"
definition ADJUST_OR :: int where "ADJUST_OR = 6"
definition ADJUST_XOR :: int where "ADJUST_XOR = 7"

text \<open>
  The spec names the other constants without a value, so the functions that use them
  take them as a parameter: the masks of the ADJUST command byte and of the REVERSE
  options byte.
\<close>

record buffered_consts =
  ADJUST_OP_MASK :: int
  ADJUST_ADVANCED_OFFSETS :: int
  ADJUST_BUFFER_VALUE :: int
  ADJUST_MULTI_TARGET :: int
  ADJUST_MULTI_OPERAND :: int
  REVERSE_16BIT :: int
  REVERSE_32BIT :: int
  REVERSE_SIZE :: int
  REVERSE_CHUNKED :: int
  REVERSE_BLOCK :: int
  REVERSE_UNUSED_BITS :: int

text \<open>
  Modelled from the spec: one assignment of the constants, for running the functions on
  concrete input. The spec has the operation in the low bits of the ADJUST command byte
  and one bit for each of its four flags, and has REVERSE_SIZE be REVERSE_16BIT and
  REVERSE_32BIT together; the bit positions are this model's choice.
\<close>

definition example_consts :: buffered_consts where
  "example_consts =
     \<lparr>ADJUST_OP_MASK = 0x0F, ADJUST_ADVANCED_OFFSETS = 0x10, ADJUST_BUFFER_VALUE = 0x20,
      ADJUST_MULTI_TARGET = 0x40, ADJUST_MULTI_OPERAND = 0x80,
      REVERSE_16BIT = 0x01, REVERSE_32BIT = 0x02, REVERSE_SIZE = 0x03,
      REVERSE_CHUNKED = 0x04, REVERSE_BLOCK = 0x08, REVERSE_UNUSED_BITS = 0xF0\<rparr>"

section \<open>ADJUST\<close>

text \<open>A value read into a 32-bit unsigned field: \<^verbatim>\<open>-1\<close> becomes \<open>2^32 - 1\<close>.\<close>

definition u32_of_int :: "int \<Rightarrow> nat" where
  "u32_of_int v = nat (v mod 4294967296)"

definition getOffsetFromStream :: "bool \<Rightarrow> state \<Rightarrow> AdvancedOffset \<times> state" where
  "getOffsetFromStream isAdvanced s =
     (if isAdvanced then
        (case read24_t s of (v, s) \<Rightarrow>
           let offset = offset_zero\<lparr>blockOffset := u32_of_int v\<rparr> in
           if blockOffset offset \<noteq> minus_one_u32 \<and> blockOffset offset AND 0x00800000 \<noteq> 0
           then
             (case readWord_t s of (blockIndex', s) \<Rightarrow>
                if blockIndex' = - 1 then (offset\<lparr>blockOffset := minus_one_u32\<rparr>, s)
                else (offset\<lparr>blockOffset := blockOffset offset AND 0x007FFFFF,
                             blockIndex := nat blockIndex'\<rparr>, s))
           else (offset, s))
      else
        (case readWord_t s of (v, s) \<Rightarrow> (offset_zero\<lparr>blockOffset := u32_of_int v\<rparr>, s)))"

text \<open>
  The locals of bufferAdjust that its loop changes. They are \<^verbatim>\<open>int\<close> in the source
  (\<^verbatim>\<open>auto sourceValue = 0\<close>); the model does not bound them, and they stay far inside 32
  bits unless one target accumulates some eight million operands.
\<close>

record adjust_vars =
  sourceValue :: int
  operandValue :: int
  carryValue :: int
  usingCarry :: bool
  offset_v :: AdvancedOffset
  operandOffset :: AdvancedOffset

text \<open>The \<^verbatim>\<open>switch (op)\<close> of the loop body; an \<open>op\<close> without a case changes nothing.\<close>

definition adjust_op :: "int \<Rightarrow> adjust_vars \<Rightarrow> adjust_vars" where
  "adjust_op op v =
     (if op = ADJUST_NOT then v\<lparr>sourceValue := NOT (sourceValue v)\<rparr>
      else if op = ADJUST_NEG then v\<lparr>sourceValue := - sourceValue v\<rparr>
      else if op = ADJUST_SET then v\<lparr>sourceValue := operandValue v\<rparr>
      else if op = ADJUST_ADD then v\<lparr>sourceValue := sourceValue v + operandValue v\<rparr>
      else if op = ADJUST_ADD_CARRY then
        (let sum = sourceValue v + operandValue v + carryValue v in
         if 255 < sum then v\<lparr>usingCarry := True, carryValue := 1, sourceValue := sum - 256\<rparr>
         else v\<lparr>usingCarry := True, carryValue := 0, sourceValue := sum\<rparr>)
      else if op = ADJUST_AND then v\<lparr>sourceValue := sourceValue v AND operandValue v\<rparr>
      else if op = ADJUST_OR then v\<lparr>sourceValue := sourceValue v OR operandValue v\<rparr>
      else if op = ADJUST_XOR then v\<lparr>sourceValue := sourceValue v XOR operandValue v\<rparr>
      else v)"

text \<open>
  Reading one operand: from the operand buffer when there is one, from the input stream
  otherwise.
\<close>

definition read_operand :: "addr list option \<Rightarrow> bool \<Rightarrow> adjust_vars \<Rightarrow> state \<Rightarrow> adjust_vars \<times> state" where
  "read_operand operandBuffer iterate v s =
     (case operandBuffer of
        Some ob \<Rightarrow>
          (case getBufferByte (heap s) ob (operandOffset v) iterate of
             (x, offset) \<Rightarrow> (v\<lparr>operandValue := x, operandOffset := offset\<rparr>, s))
      | None \<Rightarrow> (case readByte_t s of (x, s) \<Rightarrow> (v\<lparr>operandValue := x\<rparr>, s)))"

text \<open>
  The \<^verbatim>\<open>for\<close> loop of bufferAdjust, \<open>n\<close> rounds of it. The first component says whether a
  \<^verbatim>\<open>return\<close> inside the loop was taken.
\<close>

fun adjust_loop :: "nat \<Rightarrow> int \<Rightarrow> bool \<Rightarrow> bool \<Rightarrow> bool \<Rightarrow> addr list option \<Rightarrow> addr list
    \<Rightarrow> adjust_vars \<Rightarrow> state \<Rightarrow> bool \<times> adjust_vars \<times> state" where
  "adjust_loop 0 op useMultiTarget useMultiOperand hasOperand operandBuffer buffer v s =
     (False, v, s)"
| "adjust_loop (Suc n) op useMultiTarget useMultiOperand hasOperand operandBuffer buffer v s =
     (let v = (if useMultiTarget
               then (case getBufferByte (heap s) buffer (offset_v v) False of
                       (x, offset) \<Rightarrow> v\<lparr>sourceValue := x, offset_v := offset\<rparr>)
               else v)
      in case (if hasOperand \<and> useMultiOperand then read_operand operandBuffer True v s
               else (v, s)) of
        (v, s) \<Rightarrow>
          if sourceValue v = - 1 \<or> operandValue v = - 1 then (True, v, s)
          else
            (let v = adjust_op op v in
             if useMultiTarget then
               (case setBufferByte (sourceValue v) (heap s) buffer (offset_v v) True of
                  (stored, h, offset) \<Rightarrow>
                    if \<not> stored then (True, v\<lparr>offset_v := offset\<rparr>, s)
                    else adjust_loop n op useMultiTarget useMultiOperand hasOperand
                           operandBuffer buffer (v\<lparr>offset_v := offset\<rparr>) (s\<lparr>heap := h\<rparr>))
             else adjust_loop n op useMultiTarget useMultiOperand hasOperand
                    operandBuffer buffer v s))"

text \<open>
  The part of bufferAdjust from \<^verbatim>\<open>auto sourceValue = 0\<close> on, once the arguments are read
  and both buffers are found.
\<close>

definition adjust_apply :: "int \<Rightarrow> bool \<Rightarrow> bool \<Rightarrow> bool \<Rightarrow> addr list option \<Rightarrow> addr list
    \<Rightarrow> int \<Rightarrow> AdvancedOffset \<Rightarrow> AdvancedOffset \<Rightarrow> state \<Rightarrow> state" where
  "adjust_apply op useMultiTarget useMultiOperand hasOperand operandBuffer buffer count
      offset operandOffset' s =
     (let v = \<lparr>sourceValue = 0, operandValue = 0, carryValue = 0, usingCarry = False,
               offset_v = offset, operandOffset = operandOffset'\<rparr>;
          v = (if \<not> useMultiTarget
               then (case getBufferByte (heap s) buffer (offset_v v) False of
                       (x, offset) \<Rightarrow> v\<lparr>sourceValue := x, offset_v := offset\<rparr>)
               else v)
      in case (if hasOperand \<and> \<not> useMultiOperand then read_operand operandBuffer False v s
               else (v, s)) of
        (v, s) \<Rightarrow>
          (case adjust_loop (nat count) op useMultiTarget useMultiOperand hasOperand
                  operandBuffer buffer v s of
             (returned, v, s) \<Rightarrow>
               if returned then s
               else
                 (case (if \<not> useMultiTarget
                        then setBufferByte (sourceValue v) (heap s) buffer (offset_v v) True
                        else (True, heap s, offset_v v)) of
                    (stored, h, offset) \<Rightarrow>
                      if \<not> stored then s
                      else if usingCarry v then
                        (case setBufferByte (carryValue v) h buffer offset False of
                           (stored, h', offset) \<Rightarrow> if \<not> stored then s\<lparr>heap := h\<rparr> else s\<lparr>heap := h'\<rparr>)
                      else s\<lparr>heap := h\<rparr>)))"

definition bufferAdjust :: "buffered_consts \<Rightarrow> nat \<Rightarrow> state \<Rightarrow> state" where
  "bufferAdjust K adjustBufferId s =
     (case readByte_t s of (command, s) \<Rightarrow>
      let useAdvancedOffsets = (command AND ADJUST_ADVANCED_OFFSETS K \<noteq> 0);
          useBufferValue = (command AND ADJUST_BUFFER_VALUE K \<noteq> 0);
          useMultiTarget = (command AND ADJUST_MULTI_TARGET K \<noteq> 0);
          useMultiOperand = (command AND ADJUST_MULTI_OPERAND K \<noteq> 0);
          op = take_bit 8 (command AND ADJUST_OP_MASK K);
          hasOperand = (ADJUST_NEG < op)
      in
      case getOffsetFromStream useAdvancedOffsets s of (offset, s) \<Rightarrow>
      case (if useMultiTarget \<or> useMultiOperand
            then (if useAdvancedOffsets then read24_t s else readWord_t s)
            else (1, s)) of (count, s) \<Rightarrow>
      case (if useBufferValue \<and> hasOperand then
              (case readWord_t s of (w, s) \<Rightarrow>
               let operandBufferId = resolveBufferId w (id_cur s) in
               case getOffsetFromStream useAdvancedOffsets s of (operandOffset', s) \<Rightarrow>
                 if operandBufferId = - 1 then (None, s)
                 else
                   (case buffers s (nat operandBufferId) of
                      None \<Rightarrow> (None, s)
                    | Some ob \<Rightarrow> (Some (Some ob, operandOffset'), s)))
            else (Some (None, offset_zero), s)) of
        (None, s) \<Rightarrow> s
      | (Some (operandBuffer, operandOffset'), s) \<Rightarrow>
          let bufferId = resolveBufferId (int adjustBufferId) (id_cur s) in
          if bufferId = - 1 then s
          else
            (case buffers s (nat bufferId) of
               None \<Rightarrow> s
             | Some buffer \<Rightarrow>
                 if command = - 1 \<or> count = - 1 \<or> blockOffset offset = minus_one_u32
                    \<or> blockOffset operandOffset' = minus_one_u32
                 then s
                 else adjust_apply op useMultiTarget useMultiOperand hasOperand operandBuffer
                        buffer count offset operandOffset' s))"

section \<open>REVERSE\<close>

text \<open>
  \<^verbatim>\<open>size % valueSize\<close> with \<^verbatim>\<open>valueSize\<close> zero is undefined in C++, and on the target an
  integer division by zero stops the processor. HOL's \<open>mod\<close> would return the dividend,
  so the model gives the case a result of its own. The other fault is a member access
  through a null pointer, which the sample functions of the audio commands can come to.
\<close>

datatype fault = IntegerDivideByZero | NullPointerDereference

text \<open>The list cut into pieces of \<open>n\<close>, the last one shorter when \<open>n\<close> does not divide.\<close>

function chop :: "nat \<Rightarrow> 'a list \<Rightarrow> 'a list list" where
  "chop n xs = (if n = 0 \<or> xs = [] then [] else take n xs # chop n (drop n xs))"
  by pat_completeness auto
termination
  by (relation "measure (\<lambda>(n, xs). length xs)") auto

declare chop.simps [simp del]

text \<open>
  Modelled from the spec: \<^verbatim>\<open>reverseValues(data, length, valueSize)\<close> is not among the
  sources. "Reversal reverses the order of value-sized units within each chunk."
\<close>

definition reverseValues :: "nat \<Rightarrow> u8 list \<Rightarrow> u8 list" where
  "reverseValues valueSize data =
     (if valueSize = 0 then data else concat (rev (chop valueSize data)))"

text \<open>
  The first loop of bufferReverse, over the blocks: \<open>Inr False\<close> is its \<^verbatim>\<open>return\<close>, \<open>Inr True\<close>
  its normal end.
\<close>

fun verify_blocks :: "block list \<Rightarrow> addr list \<Rightarrow> nat \<Rightarrow> nat \<Rightarrow> fault + bool" where
  "verify_blocks h [] valueSize chunkSize = Inr True"
| "verify_blocks h (a # buffer) valueSize chunkSize =
     (if valueSize = 0 then Inl IntegerDivideByZero
      else if block_size h a mod valueSize \<noteq> 0
              \<or> (chunkSize \<noteq> 0 \<and> block_size h a mod chunkSize \<noteq> 0)
      then Inr False
      else verify_blocks h buffer valueSize chunkSize)"

text \<open>The body of the second loop, for one block.\<close>

definition reverse_block :: "nat \<Rightarrow> nat \<Rightarrow> block list \<Rightarrow> addr \<Rightarrow> block list" where
  "reverse_block valueSize chunkSize h a =
     (let b = block_at h a; data = bytes b in
      if chunkSize = 0 then h[a := b\<lparr>bytes := reverseValues valueSize data\<rparr>]
      else
        (let chunkCount = length data div chunkSize in
         h[a := b\<lparr>bytes :=
                  concat (map (reverseValues valueSize)
                            (chop chunkSize (take (chunkCount * chunkSize) data)))
                  @ drop (chunkCount * chunkSize) data\<rparr>]))"

definition bufferReverse :: "buffered_consts \<Rightarrow> nat \<Rightarrow> int \<Rightarrow> state \<Rightarrow> fault + state" where
  "bufferReverse K bufferId options s =
     (case buffers s bufferId of
        None \<Rightarrow> Inr s
      | Some buffer \<Rightarrow>
          let use16Bit = (options AND REVERSE_16BIT K \<noteq> 0);
              use32Bit = (options AND REVERSE_32BIT K \<noteq> 0);
              useSize = (options AND REVERSE_SIZE K = REVERSE_SIZE K);
              useChunks = (options AND REVERSE_CHUNKED K \<noteq> 0);
              reverseBlocks = (options AND REVERSE_BLOCK K \<noteq> 0)
          in
          case (if useSize then readWord_t s
                else if use32Bit then (4, s)
                else if use16Bit then (2, s)
                else (1, s)) of (valueSize, s) \<Rightarrow>
          if valueSize = - 1 then Inr s
          else
            (case (if useChunks then readWord_t s else (0, s)) of (chunkSize, s) \<Rightarrow>
             if chunkSize = - 1 then Inr s
             else
               (case verify_blocks (heap s) buffer (nat valueSize) (nat chunkSize) of
                  Inl f \<Rightarrow> Inl f
                | Inr False \<Rightarrow> Inr s
                | Inr True \<Rightarrow>
                    Inr (s\<lparr>heap := foldl (reverse_block (nat valueSize) (nat chunkSize)) (heap s) buffer,
                           buffers := (buffers s)
                             (bufferId \<mapsto> (if reverseBlocks then rev buffer else buffer))\<rparr>))))"

section \<open>Audio commands\<close>

text \<open>Modelled from the spec: the audio command codes, as the spec's table numbers them.\<close>

definition AUDIO_CMD_PLAY :: int where "AUDIO_CMD_PLAY = 0"
definition AUDIO_CMD_STATUS :: int where "AUDIO_CMD_STATUS = 1"
definition AUDIO_CMD_VOLUME :: int where "AUDIO_CMD_VOLUME = 2"
definition AUDIO_CMD_FREQUENCY :: int where "AUDIO_CMD_FREQUENCY = 3"
definition AUDIO_CMD_WAVEFORM :: int where "AUDIO_CMD_WAVEFORM = 4"
definition AUDIO_CMD_SAMPLE :: int where "AUDIO_CMD_SAMPLE = 5"
definition AUDIO_CMD_ENV_VOLUME :: int where "AUDIO_CMD_ENV_VOLUME = 6"
definition AUDIO_CMD_ENV_FREQUENCY :: int where "AUDIO_CMD_ENV_FREQUENCY = 7"
definition AUDIO_CMD_ENABLE :: int where "AUDIO_CMD_ENABLE = 8"
definition AUDIO_CMD_DISABLE :: int where "AUDIO_CMD_DISABLE = 9"
definition AUDIO_CMD_RESET :: int where "AUDIO_CMD_RESET = 10"
definition AUDIO_CMD_SEEK :: int where "AUDIO_CMD_SEEK = 11"
definition AUDIO_CMD_DURATION :: int where "AUDIO_CMD_DURATION = 12"
definition AUDIO_CMD_SAMPLERATE :: int where "AUDIO_CMD_SAMPLERATE = 13"
definition AUDIO_CMD_SET_PARAM :: int where "AUDIO_CMD_SET_PARAM = 14"

text \<open>Modelled from the spec: "bit 7 of param set" selects a 16-bit value.\<close>

definition AUDIO_PARAM_16BIT :: int where "AUDIO_PARAM_16BIT = 0x80"

text \<open>The audio constants the spec gives no value: a parameter of the functions.\<close>

record audio_consts =
  AUDIO_WAVE_SAMPLE :: int
  AUDIO_SAMPLE_LOAD :: int
  AUDIO_SAMPLE_CLEAR :: int
  AUDIO_SAMPLE_FROM_BUFFER :: int
  AUDIO_SAMPLE_SET_FREQUENCY :: int
  AUDIO_SAMPLE_BUFFER_SET_FREQUENCY :: int
  AUDIO_SAMPLE_SET_REPEAT_START :: int
  AUDIO_SAMPLE_BUFFER_SET_REPEAT_START :: int
  AUDIO_SAMPLE_SET_REPEAT_LENGTH :: int
  AUDIO_SAMPLE_BUFFER_SET_REPEAT_LENGTH :: int
  AUDIO_SAMPLE_DEBUG_INFO :: int
  BUFFERED_SAMPLE_BASEID :: int
  AUDIO_DEFAULT_SAMPLE_RATE :: int
  AUDIO_DEFAULT_FREQUENCY :: int
  AUDIO_FORMAT_WITH_RATE :: int
  AUDIO_FORMAT_DATA_MASK :: int
  AUDIO_FORMAT_TUNEABLE :: int
  AUDIO_ENVELOPE_NONE :: int
  AUDIO_ENVELOPE_ADSR :: int
  AUDIO_ENVELOPE_MULTIPHASE_ADSR :: int
  AUDIO_FREQUENCY_ENVELOPE_STEPPED :: int
  AUDIO_FREQUENCY_REPEATS :: int
  AUDIO_FREQUENCY_CUMULATIVE :: int
  AUDIO_FREQUENCY_RESTRICT :: int

text \<open>The envelopes that the two envelope commands build from their payload.\<close>

datatype volume_envelope =
    ADSRVolumeEnvelope int int int int
  | MultiphaseADSREnvelope "(int \<times> int) list" "(int \<times> int) list" "(int \<times> int) list"

datatype frequency_envelope =
    SteppedFrequencyEnvelope "(int \<times> int) list" int bool bool bool

text \<open>
  The channel functions of \<^verbatim>\<open>agon_audio.h\<close> and the methods of \<^verbatim>\<open>AudioChannel\<close> are not
  among the sources, and the spec says of them only that each returns a status byte. They
  are a parameter: each takes the channels and its arguments and returns the status and
  the channels. So is the constructor of \<^verbatim>\<open>AudioSample\<close>, given the blocks of the buffer,
  the format and the rate when there is one.
\<close>

type_synonym chans = "nat \<Rightarrow> chan_state"

record audio_ops =
  playNote :: "chans \<Rightarrow> nat \<Rightarrow> int \<Rightarrow> int \<Rightarrow> int \<Rightarrow> nat \<times> chans"
  getChannelStatus :: "chans \<Rightarrow> nat \<Rightarrow> nat \<times> chans"
  setVolume :: "chans \<Rightarrow> nat \<Rightarrow> int \<Rightarrow> nat \<times> chans"
  setFrequency :: "chans \<Rightarrow> nat \<Rightarrow> int \<Rightarrow> nat \<times> chans"
  setWaveform :: "(nat \<Rightarrow> sample_ptr option) \<Rightarrow> chans \<Rightarrow> nat \<Rightarrow> int \<Rightarrow> int \<Rightarrow> nat \<times> chans"
  disableChannel :: "chans \<Rightarrow> nat \<Rightarrow> nat \<times> chans"
  seekTo_channel :: "chans \<Rightarrow> nat \<Rightarrow> int \<Rightarrow> nat \<times> chans"
  setDuration :: "chans \<Rightarrow> nat \<Rightarrow> int \<Rightarrow> nat \<times> chans"
  setSampleRate :: "chans \<Rightarrow> nat \<Rightarrow> int \<Rightarrow> nat \<times> chans"
  channel_setVolumeEnvelope :: "chans \<Rightarrow> nat \<Rightarrow> volume_envelope option \<Rightarrow> nat \<times> chans"
  channel_setFrequencyEnvelope :: "chans \<Rightarrow> nat \<Rightarrow> frequency_envelope option \<Rightarrow> nat \<times> chans"
  channel_setParameter :: "chans \<Rightarrow> nat \<Rightarrow> int \<Rightarrow> int \<Rightarrow> nat \<times> chans"
  new_AudioSample :: "addr list \<Rightarrow> int \<Rightarrow> int option \<Rightarrow> AudioSample"

text \<open>
  Modelled from the spec: \<^verbatim>\<open>channelEnabled\<close>, \<^verbatim>\<open>audioTaskKill\<close> and \<^verbatim>\<open>enableChannel\<close> of
  \<^verbatim>\<open>agon_audio.h\<close>. The spec's channel has an "enabled flag" and the state machine
  "Disabled, Idle, Playing, Releasing, Idle"; its reset is "disable, wait for quiescence,
  re-enable". A channel is enabled when it is not Disabled, killing its task leaves it
  Disabled, and enabling a Disabled channel leaves it Idle.
\<close>

definition channelEnabled :: "chans \<Rightarrow> nat \<Rightarrow> bool" where
  "channelEnabled chs channel = (chs channel \<noteq> Disabled)"

definition audioTaskKill :: "chans \<Rightarrow> nat \<Rightarrow> chans" where
  "audioTaskKill chs channel = chs(channel := Disabled)"

definition enableChannel :: "chans \<Rightarrow> nat \<Rightarrow> nat \<times> chans" where
  "enableChannel chs channel =
     (if channelEnabled chs channel then (1, chs) else (1, chs(channel := Idle)))"

text \<open>
  sendAudioStatus; both parameters are \<^verbatim>\<open>uint8_t\<close>. Modelled from the spec: \<^verbatim>\<open>send_packet\<close>
  hands the packet to the output transport, which the model records in \<open>sent\<close>.
\<close>

definition send_packet :: "packet_code \<Rightarrow> u8 list \<Rightarrow> state \<Rightarrow> state" where
  "send_packet code packet s = s\<lparr>sent := sent s @ [(code, packet)]\<rparr>"

definition sendAudioStatus :: "int \<Rightarrow> nat \<Rightarrow> state \<Rightarrow> state" where
  "sendAudioStatus channel status s =
     send_packet PACKET_AUDIO [word_of_int channel, of_nat status] s"

text \<open>
  How a call of vdu_sys_audio ends: through one of its \<^verbatim>\<open>if (x == -1) return;\<close> after a
  read that failed, at the end of its body, or in a fault.
\<close>

datatype ending = Read_failed | Completed | Crashed fault

text \<open>\<^verbatim>\<open>auto x = read(); if (x == -1) return;\<close> and then the rest of the body.\<close>

definition reading :: "(state \<Rightarrow> int \<times> state) \<Rightarrow> state \<Rightarrow> (int \<Rightarrow> state \<Rightarrow> ending \<times> state)
    \<Rightarrow> ending \<times> state" where
  "reading rd s rest = (case rd s of (x, s') \<Rightarrow> if x = - 1 then (Read_failed, s') else rest x s')"

text \<open>\<^verbatim>\<open>auto x = read(); if (x == -1) return 0;\<close> and then the rest, in a function that returns a status.\<close>

definition reading0 :: "(state \<Rightarrow> int \<times> state) \<Rightarrow> state \<Rightarrow> (int \<Rightarrow> state \<Rightarrow> nat \<times> state)
    \<Rightarrow> nat \<times> state" where
  "reading0 rd s rest = (case rd s of (x, s') \<Rightarrow> if x = - 1 then (0, s') else rest x s')"

text \<open>Sending the status that a channel function returns, after storing the channels.\<close>

definition reply :: "int \<Rightarrow> nat \<times> chans \<Rightarrow> state \<Rightarrow> ending \<times> state" where
  "reply channel r s = (Completed, sendAudioStatus channel (fst r) (s\<lparr>channels := snd r\<rparr>))"

definition reply_status :: "int \<Rightarrow> nat \<times> state \<Rightarrow> ending \<times> state" where
  "reply_status channel r = (Completed, sendAudioStatus channel (fst r) (snd r))"

text \<open>
  The same for a function that can fault: then nothing is sent, and the state is the one
  the function was called in.
\<close>

definition reply_or_fault :: "int \<Rightarrow> fault + nat \<times> state \<Rightarrow> state \<Rightarrow> ending \<times> state" where
  "reply_or_fault channel r s =
     (case r of Inl f \<Rightarrow> (Crashed f, s) | Inr r \<Rightarrow> reply_status channel r)"

text \<open>
  createSampleFromBuffer. The sample is allocated after the old one is cleared, and
  stored only \<^verbatim>\<open>if (sample)\<close>; the status is 0 when it is not.
\<close>

definition createSampleFromBuffer :: "audio_ops \<Rightarrow> audio_consts \<Rightarrow> nat \<Rightarrow> int \<Rightarrow> int \<Rightarrow> state
    \<Rightarrow> nat \<times> state" where
  "createSampleFromBuffer ops A bufferId format' sampleRate' s =
     (case buffers s bufferId of
        None \<Rightarrow> (0, s)
      | Some b \<Rightarrow>
          (case allocate (snd (clearSample bufferId s)) of (allocated, s) \<Rightarrow>
             if allocated then
               let sample = (if format' AND AUDIO_FORMAT_WITH_RATE A \<noteq> 0
                             then new_AudioSample ops b (format' AND AUDIO_FORMAT_DATA_MASK A)
                                    (Some sampleRate')
                             else new_AudioSample ops b (format' AND AUDIO_FORMAT_DATA_MASK A) None);
                   sample = (if format' AND AUDIO_FORMAT_TUNEABLE A \<noteq> 0
                             then sample\<lparr>baseFrequency := nat (AUDIO_DEFAULT_FREQUENCY A)\<rparr>
                             else sample)
               in (1, s\<lparr>samples := (samples s)(bufferId \<mapsto> Sample sample)\<rparr>)
             else (0, s)))"

definition loadSample :: "audio_ops \<Rightarrow> audio_consts \<Rightarrow> nat \<Rightarrow> nat \<Rightarrow> state \<Rightarrow> nat \<times> state" where
  "loadSample ops A bufferId len s =
     (case bufferWrite bufferId len (bufferClear bufferId s) of
        (remaining, s) \<Rightarrow>
          if remaining \<noteq> 0 then (0, s)
          else createSampleFromBuffer ops A bufferId 0 (AUDIO_DEFAULT_SAMPLE_RATE A) s)"

text \<open>
  The three functions that set a field of a sample. \<^verbatim>\<open>samples.find(sampleId)\<close> only looks
  for the entry; \<^verbatim>\<open>samples[sampleId]->baseFrequency = frequency\<close> then writes through the
  pointer the entry holds, and through a null pointer that is a fault.
\<close>

definition setSampleFrequency :: "nat \<Rightarrow> int \<Rightarrow> state \<Rightarrow> fault + nat \<times> state" where
  "setSampleFrequency sampleId frequency s =
     (case samples s sampleId of
        None \<Rightarrow> Inr (0, s)
      | Some Null_sample \<Rightarrow> Inl NullPointerDereference
      | Some (Sample x) \<Rightarrow>
          Inr (1, s\<lparr>samples := (samples s)
                      (sampleId \<mapsto> Sample (x\<lparr>baseFrequency := nat frequency\<rparr>))\<rparr>))"

definition setSampleRepeatStart :: "nat \<Rightarrow> int \<Rightarrow> state \<Rightarrow> fault + nat \<times> state" where
  "setSampleRepeatStart sampleId repeatStart' s =
     (case samples s sampleId of
        None \<Rightarrow> Inr (0, s)
      | Some Null_sample \<Rightarrow> Inl NullPointerDereference
      | Some (Sample x) \<Rightarrow>
          Inr (1, s\<lparr>samples := (samples s)
                      (sampleId \<mapsto> Sample (x\<lparr>repeatStart := nat repeatStart'\<rparr>))\<rparr>))"

definition setSampleRepeatLength :: "nat \<Rightarrow> int \<Rightarrow> state \<Rightarrow> fault + nat \<times> state" where
  "setSampleRepeatLength sampleId repeatLength' s =
     (case samples s sampleId of
        None \<Rightarrow> Inr (0, s)
      | Some Null_sample \<Rightarrow> Inl NullPointerDereference
      | Some (Sample x) \<Rightarrow>
          Inr (1, s\<lparr>samples := (samples s)
                      (sampleId \<mapsto> Sample (x\<lparr>repeatLength :=
                         (if repeatLength' = 0xFFFFFF then minus_one_u32 else nat repeatLength')\<rparr>))\<rparr>))"

text \<open>
  The lambda \<^verbatim>\<open>getPhases\<close> of setVolumeEnvelope: the count, then its loop. The first
  component is what the lambda returns, 1 or 0.
\<close>

fun getPhases_loop :: "nat \<Rightarrow> (int \<times> int) list \<Rightarrow> state \<Rightarrow> nat \<times> (int \<times> int) list \<times> state" where
  "getPhases_loop 0 subPhases s = (1, subPhases, s)"
| "getPhases_loop (Suc n) subPhases s =
     (case readByte_t s of (level, s) \<Rightarrow>
        if level = - 1 then (0, subPhases, s)
        else
          (case readWord_t s of (duration, s) \<Rightarrow>
             if duration = - 1 then (0, subPhases, s)
             else getPhases_loop n (subPhases @ [(level, duration)]) s))"

definition getPhases :: "state \<Rightarrow> nat \<times> (int \<times> int) list \<times> state" where
  "getPhases s =
     (case readByte_t s of (count, s) \<Rightarrow>
        if count = - 1 then (0, [], s) else getPhases_loop (nat count) [] s)"

definition setVolumeEnvelope :: "audio_ops \<Rightarrow> audio_consts \<Rightarrow> nat \<Rightarrow> int \<Rightarrow> state \<Rightarrow> nat \<times> state" where
  "setVolumeEnvelope ops A channel type' s =
     (if channelEnabled (channels s) channel then
        (if type' = AUDIO_ENVELOPE_NONE A then
           (case channel_setVolumeEnvelope ops (channels s) channel None of
              (st, chs) \<Rightarrow> (st, s\<lparr>channels := chs\<rparr>))
         else if type' = AUDIO_ENVELOPE_ADSR A then
           reading0 readWord_t s (\<lambda>attack s.
           reading0 readWord_t s (\<lambda>decay s.
           reading0 readByte_t s (\<lambda>sustain s.
           reading0 readWord_t s (\<lambda>release s.
             (case channel_setVolumeEnvelope ops (channels s) channel
                     (Some (ADSRVolumeEnvelope attack decay sustain release)) of
                (st, chs) \<Rightarrow> (st, s\<lparr>channels := chs\<rparr>))))))
         else if type' = AUDIO_ENVELOPE_MULTIPHASE_ADSR A then
           (case getPhases s of (ok, attack, s) \<Rightarrow>
            if ok = 0 then (0, s)
            else
              (case getPhases s of (ok, sustain, s) \<Rightarrow>
               if ok = 0 then (0, s)
               else
                 (case getPhases s of (ok, release, s) \<Rightarrow>
                  if ok = 0 then (0, s)
                  else
                    (case channel_setVolumeEnvelope ops (channels s) channel
                            (Some (MultiphaseADSREnvelope attack sustain release)) of
                       (st, chs) \<Rightarrow> (st, s\<lparr>channels := chs\<rparr>)))))
         else (0, s))
      else (0, s))"

text \<open>\<^verbatim>\<open>(int16_t) adjustment\<close>: the 16 bits read as a signed number.\<close>

definition int16 :: "int \<Rightarrow> int" where
  "int16 x = sint (word_of_int x :: 16 word)"

fun stepped_phases :: "nat \<Rightarrow> (int \<times> int) list \<Rightarrow> state \<Rightarrow> nat \<times> (int \<times> int) list \<times> state" where
  "stepped_phases 0 phases s = (1, phases, s)"
| "stepped_phases (Suc n) phases s =
     (case readWord_t s of (adjustment, s) \<Rightarrow>
        if adjustment = - 1 then (0, phases, s)
        else
          (case readWord_t s of (number, s) \<Rightarrow>
             if number = - 1 then (0, phases, s)
             else stepped_phases n (phases @ [(int16 adjustment, number)]) s))"

definition setFrequencyEnvelope :: "audio_ops \<Rightarrow> audio_consts \<Rightarrow> nat \<Rightarrow> int \<Rightarrow> state \<Rightarrow> nat \<times> state" where
  "setFrequencyEnvelope ops A channel type' s =
     (if channelEnabled (channels s) channel then
        (if type' = AUDIO_ENVELOPE_NONE A then
           (case channel_setFrequencyEnvelope ops (channels s) channel None of
              (st, chs) \<Rightarrow> (st, s\<lparr>channels := chs\<rparr>))
         else if type' = AUDIO_FREQUENCY_ENVELOPE_STEPPED A then
           reading0 readByte_t s (\<lambda>phaseCount s.
           reading0 readByte_t s (\<lambda>control s.
           reading0 readWord_t s (\<lambda>stepLength s.
             (case stepped_phases (nat phaseCount) [] s of (ok, phases, s) \<Rightarrow>
                if ok = 0 then (0, s)
                else
                  (case channel_setFrequencyEnvelope ops (channels s) channel
                          (Some (SteppedFrequencyEnvelope phases stepLength
                                   (control AND AUDIO_FREQUENCY_REPEATS A \<noteq> 0)
                                   (control AND AUDIO_FREQUENCY_CUMULATIVE A \<noteq> 0)
                                   (control AND AUDIO_FREQUENCY_RESTRICT A \<noteq> 0))) of
                     (st, chs) \<Rightarrow> (st, s\<lparr>channels := chs\<rparr>))))))
         else (0, s))
      else (0, s))"

definition setParameter :: "audio_ops \<Rightarrow> nat \<Rightarrow> int \<Rightarrow> int \<Rightarrow> state \<Rightarrow> nat \<times> state" where
  "setParameter ops channel parameter v s =
     (if channelEnabled (channels s) channel then
        (case channel_setParameter ops (channels s) channel parameter v of
           (st, chs) \<Rightarrow> (st, s\<lparr>channels := chs\<rparr>))
      else (0, s))"

text \<open>
  \<^verbatim>\<open>uint16_t sampleNum = BUFFERED_SAMPLE_BASEID + (-(int8_t)channel - 1)\<close>: the channel byte
  read as a signed number, and the sum cut to 16 bits.
\<close>

definition sample_number :: "audio_consts \<Rightarrow> int \<Rightarrow> nat" where
  "sample_number A channel =
     nat ((BUFFERED_SAMPLE_BASEID A + (- sint (word_of_int channel :: 8 word) - 1)) mod 65536)"

text \<open>
  The case \<^verbatim>\<open>AUDIO_CMD_SAMPLE\<close> of vdu_sys_audio. The action \<^verbatim>\<open>AUDIO_SAMPLE_DEBUG_INFO\<close> reads
  a buffer id and writes to the debug log, which the model does not have. Its
  \<^verbatim>\<open>auto sample = samples[bufferId]\<close> looks the id up with \<^verbatim>\<open>operator[]\<close>, which adds a null
  entry for an id that has none; the action sends no status.
\<close>

definition vdu_sys_audio_sample :: "audio_ops \<Rightarrow> audio_consts \<Rightarrow> int \<Rightarrow> state \<Rightarrow> ending \<times> state" where
  "vdu_sys_audio_sample ops A channel s =
     reading readByte_t s (\<lambda>action s.
       let sampleNum = sample_number A channel in
       if action = AUDIO_SAMPLE_LOAD A then
         reading read24_t s (\<lambda>len s.
           reply_status channel (loadSample ops A sampleNum (nat len) s))
       else if action = AUDIO_SAMPLE_CLEAR A then
         reply_status channel (clearSample sampleNum s)
       else if action = AUDIO_SAMPLE_FROM_BUFFER A then
         reading readWord_t s (\<lambda>bufferId s.
         reading readByte_t s (\<lambda>format' s.
           if format' AND AUDIO_FORMAT_WITH_RATE A \<noteq> 0 then
             reading readWord_t s (\<lambda>sampleRate' s.
               reply_status channel
                 (createSampleFromBuffer ops A (nat bufferId) format' sampleRate' s))
           else
             reply_status channel
               (createSampleFromBuffer ops A (nat bufferId) format' (AUDIO_DEFAULT_SAMPLE_RATE A) s)))
       else if action = AUDIO_SAMPLE_SET_FREQUENCY A then
         reading readWord_t s (\<lambda>frequency s.
           reply_or_fault channel (setSampleFrequency sampleNum frequency s) s)
       else if action = AUDIO_SAMPLE_BUFFER_SET_FREQUENCY A then
         reading readWord_t s (\<lambda>bufferId s.
         reading readWord_t s (\<lambda>frequency s.
           reply_or_fault channel (setSampleFrequency (nat bufferId) frequency s) s))
       else if action = AUDIO_SAMPLE_SET_REPEAT_START A then
         reading read24_t s (\<lambda>repeatStart' s.
           reply_or_fault channel (setSampleRepeatStart sampleNum repeatStart' s) s)
       else if action = AUDIO_SAMPLE_BUFFER_SET_REPEAT_START A then
         reading readWord_t s (\<lambda>bufferId s.
         reading read24_t s (\<lambda>repeatStart' s.
           reply_or_fault channel (setSampleRepeatStart (nat bufferId) repeatStart' s) s))
       else if action = AUDIO_SAMPLE_SET_REPEAT_LENGTH A then
         reading read24_t s (\<lambda>repeatLength' s.
           reply_or_fault channel (setSampleRepeatLength sampleNum repeatLength' s) s)
       else if action = AUDIO_SAMPLE_BUFFER_SET_REPEAT_LENGTH A then
         reading readWord_t s (\<lambda>bufferId s.
         reading read24_t s (\<lambda>repeatLength' s.
           reply_or_fault channel (setSampleRepeatLength (nat bufferId) repeatLength' s) s))
       else if action = AUDIO_SAMPLE_DEBUG_INFO A then
         reading readWord_t s (\<lambda>bufferId s.
           (Completed,
            case samples s (nat bufferId) of
              None \<Rightarrow> s\<lparr>samples := (samples s)(nat bufferId \<mapsto> Null_sample)\<rparr>
            | Some sample \<Rightarrow> s))
       else (Completed, sendAudioStatus channel 0 s))"

text \<open>
  vdu_sys_audio. The \<^verbatim>\<open>switch (command)\<close> has no default: a command code without a case
  falls through to the end of the function. \<^verbatim>\<open>vTaskDelay\<close> only waits.
\<close>

definition vdu_sys_audio :: "audio_ops \<Rightarrow> audio_consts \<Rightarrow> state \<Rightarrow> ending \<times> state" where
  "vdu_sys_audio ops A s =
     reading readByte_t s (\<lambda>channel s.
     reading readByte_t s (\<lambda>command s.
       if command = AUDIO_CMD_PLAY then
         reading readByte_t s (\<lambda>volume s.
         reading readWord_t s (\<lambda>frequency s.
         reading readWord_t s (\<lambda>duration s.
           reply channel (playNote ops (channels s) (nat channel) volume frequency duration) s)))
       else if command = AUDIO_CMD_STATUS then
         reply channel (getChannelStatus ops (channels s) (nat channel)) s
       else if command = AUDIO_CMD_VOLUME then
         reading readByte_t s (\<lambda>volume s.
           reply channel (setVolume ops (channels s) (nat channel) volume) s)
       else if command = AUDIO_CMD_FREQUENCY then
         reading readWord_t s (\<lambda>frequency s.
           reply channel (setFrequency ops (channels s) (nat channel) frequency) s)
       else if command = AUDIO_CMD_WAVEFORM then
         reading readByte_t s (\<lambda>waveform s.
           if waveform = AUDIO_WAVE_SAMPLE A then
             reading readWord_t s (\<lambda>sampleNum s.
               reply channel
                 (setWaveform ops (samples s) (channels s) (nat channel)
                    (sint (word_of_int waveform :: 8 word)) sampleNum) s)
           else
             reply channel
               (setWaveform ops (samples s) (channels s) (nat channel)
                  (sint (word_of_int waveform :: 8 word)) 0) s)
       else if command = AUDIO_CMD_SAMPLE then vdu_sys_audio_sample ops A channel s
       else if command = AUDIO_CMD_ENV_VOLUME then
         reading readByte_t s (\<lambda>type' s.
           reply_status channel (setVolumeEnvelope ops A (nat channel) type' s))
       else if command = AUDIO_CMD_ENV_FREQUENCY then
         reading readByte_t s (\<lambda>type' s.
           reply_status channel (setFrequencyEnvelope ops A (nat channel) type' s))
       else if command = AUDIO_CMD_ENABLE then
         reply channel (enableChannel (channels s) (nat channel)) s
       else if command = AUDIO_CMD_DISABLE then
         reply channel (disableChannel ops (channels s) (nat channel)) s
       else if command = AUDIO_CMD_RESET then
         (if channelEnabled (channels s) (nat channel)
          then reply channel
                 (enableChannel (audioTaskKill (channels s) (nat channel)) (nat channel)) s
          else (Completed, sendAudioStatus channel 0 s))
       else if command = AUDIO_CMD_SEEK then
         reading read24_t s (\<lambda>position s.
           reply channel (seekTo_channel ops (channels s) (nat channel) position) s)
       else if command = AUDIO_CMD_DURATION then
         reading read24_t s (\<lambda>duration s.
           reply channel (setDuration ops (channels s) (nat channel) duration) s)
       else if command = AUDIO_CMD_SAMPLERATE then
         reading readWord_t s (\<lambda>sampleRate' s.
           reply channel (setSampleRate ops (channels s) (nat channel) sampleRate') s)
       else if command = AUDIO_CMD_SET_PARAM then
         reading readByte_t s (\<lambda>param s.
           reading (if param AND AUDIO_PARAM_16BIT \<noteq> 0 then readWord_t else readByte_t) s
             (\<lambda>v s. reply_status channel (setParameter ops (nat channel) param v s)))
       else (Completed, s)))"

section \<open>The payloads, as the spec lists them\<close>

text \<open>
  The spec's table of the audio command codes gives each command its payload field by
  field: "PLAY: vol:u8, freq:u16, dur:u16", "WAVEFORM: wave:i8, [sampleId:u16 if wave ==
  SAMPLE_SENTINEL]", "SET_PARAM: param:u8, value:u8 or u16 (bit 7 of param set: u16)". The
  definitions of this section follow that table and the two lists under it, not the
  source; the theorems compare the reads of vdu_sys_audio with them.

  A layout is a field and, for each value that field can have, the layout of what comes
  after it.
\<close>

datatype field = U8 | U16 | U24

datatype layout = End_of_payload | Field field "int \<Rightarrow> layout"



text \<open>
  Reading a payload off the input stream, field by field, up to the first read that
  fails: whether every field arrived, and the state after the last read.
\<close>

definition read_field :: "field \<Rightarrow> state \<Rightarrow> int \<times> state" where
  "read_field f = (case f of U8 \<Rightarrow> readByte_t | U16 \<Rightarrow> readWord_t | U24 \<Rightarrow> read24_t)"

primrec read_layout :: "layout \<Rightarrow> state \<Rightarrow> bool \<times> state" where
  "read_layout End_of_payload s = (True, s)"
| "read_layout (Field f rest) s =
     (case read_field f s of (v, s') \<Rightarrow>
        if v = - 1 then (False, s') else read_layout (rest v) s')"





section \<open>Concrete states\<close>

text \<open>
  Modelled from the spec: values for running the audio functions on concrete input. The
  sample actions are numbered in the order the spec lists them; the other values are
  this model's choice. The channel functions of \<open>accepting_ops\<close> return status 1 and
  change nothing.
\<close>

definition example_audio_consts :: audio_consts where
  "example_audio_consts =
     \<lparr>AUDIO_WAVE_SAMPLE = 8, AUDIO_SAMPLE_LOAD = 0, AUDIO_SAMPLE_CLEAR = 1,
      AUDIO_SAMPLE_FROM_BUFFER = 2, AUDIO_SAMPLE_SET_FREQUENCY = 3,
      AUDIO_SAMPLE_BUFFER_SET_FREQUENCY = 4, AUDIO_SAMPLE_SET_REPEAT_START = 5,
      AUDIO_SAMPLE_BUFFER_SET_REPEAT_START = 6, AUDIO_SAMPLE_SET_REPEAT_LENGTH = 7,
      AUDIO_SAMPLE_BUFFER_SET_REPEAT_LENGTH = 8, AUDIO_SAMPLE_DEBUG_INFO = 16,
      BUFFERED_SAMPLE_BASEID = 64256, AUDIO_DEFAULT_SAMPLE_RATE = 16384,
      AUDIO_DEFAULT_FREQUENCY = 523, AUDIO_FORMAT_WITH_RATE = 8,
      AUDIO_FORMAT_DATA_MASK = 7, AUDIO_FORMAT_TUNEABLE = 16,
      AUDIO_ENVELOPE_NONE = 0, AUDIO_ENVELOPE_ADSR = 1, AUDIO_ENVELOPE_MULTIPHASE_ADSR = 2,
      AUDIO_FREQUENCY_ENVELOPE_STEPPED = 1, AUDIO_FREQUENCY_REPEATS = 1,
      AUDIO_FREQUENCY_CUMULATIVE = 2, AUDIO_FREQUENCY_RESTRICT = 4\<rparr>"

definition accepting_ops :: audio_ops where
  "accepting_ops =
     \<lparr>playNote = (\<lambda>chs c v f d. (1, chs)), getChannelStatus = (\<lambda>chs c. (1, chs)),
      setVolume = (\<lambda>chs c v. (1, chs)), setFrequency = (\<lambda>chs c f. (1, chs)),
      setWaveform = (\<lambda>sm chs c w n. (1, chs)), disableChannel = (\<lambda>chs c. (1, chs)),
      seekTo_channel = (\<lambda>chs c p. (1, chs)), setDuration = (\<lambda>chs c d. (1, chs)),
      setSampleRate = (\<lambda>chs c r. (1, chs)),
      channel_setVolumeEnvelope = (\<lambda>chs c e. (1, chs)),
      channel_setFrequencyEnvelope = (\<lambda>chs c e. (1, chs)),
      channel_setParameter = (\<lambda>chs c p v. (1, chs)),
      new_AudioSample = (\<lambda>b f r. \<lparr>sample_blocks = b, format = nat f,
         sampleRate = (case r of None \<Rightarrow> 0 | Some x \<Rightarrow> nat x), baseFrequency = 0,
         repeatStart = 0, repeatLength = 0\<rparr>)\<rparr>"

text \<open>
  The top-level processor reading \<open>input\<close> from the serial link, with the given blocks,
  buffers, samples and channels, nothing sent yet, fresh memory full of \<open>0xAA\<close>, and
  every allocation to come a success.
\<close>

definition top_level :: "u8 list \<Rightarrow> block list \<Rightarrow> (nat \<Rightarrow> addr list option)
    \<Rightarrow> (nat \<Rightarrow> sample_ptr option) \<Rightarrow> chans \<Rightarrow> state" where
  "top_level input h bufs smps chs =
     \<lparr>inputStream = Serial input, outputStream = Port_stream,
      originalOutputStream = Port_stream, id_cur = 65535, heap = h, buffers = bufs,
      samples = smps, channels = chs, sent = [], psram = (\<lambda>i. 0xAA), allocations = []\<rparr>"

text \<open>A processor that runs buffer \<open>current\<close> and has its input at \<open>stream\<close>.\<close>

definition nested :: "nat \<Rightarrow> in_stream \<Rightarrow> block list \<Rightarrow> (nat \<Rightarrow> addr list option) \<Rightarrow> state" where
  "nested current stream h bufs =
     \<lparr>inputStream = stream, outputStream = Port_stream,
      originalOutputStream = Port_stream, id_cur = current, heap = h, buffers = bufs,
      samples = (\<lambda>k. None), channels = (\<lambda>c. Disabled), sent = [], psram = (\<lambda>i. 0xAA),
      allocations = []\<rparr>"

text \<open>A pointer to a sample over block 0, with metadata of no consequence.\<close>

definition sample7 :: sample_ptr where
  "sample7 = Sample \<lparr>sample_blocks = [0], format = 0, sampleRate = 16384, baseFrequency = 0,
                      repeatStart = 0, repeatLength = 0\<rparr>"

text \<open>A nested run that leaves the stores as they are, for concrete calls of bufferCall.\<close>

definition no_run :: nested_run where
  "no_run stream out bufferId s = s"

section \<open>Properties\<close>

text \<open>
  \<open>only_input s s'\<close>: the state \<open>s'\<close> is \<open>s\<close> but for the input stream. It is what reading
  does to the state.
\<close>

definition only_input :: "state \<Rightarrow> state \<Rightarrow> bool" where
  "only_input s s' = (\<exists>i. s' = s\<lparr>inputStream := i\<rparr>)"

text \<open>A reader changes nothing but the input stream.\<close>

definition reader :: "(state \<Rightarrow> int \<times> state) \<Rightarrow> bool" where
  "reader rd = (\<forall>s x s'. rd s = (x, s') \<longrightarrow> only_input s s')"





subsection \<open>Reading leaves the stores alone\<close>

lemma only_input_refl: "only_input s s"
  unfolding only_input_def by (rule exI [of _ "inputStream s"]) simp

lemma only_input_trans: "only_input s s' \<Longrightarrow> only_input s' s'' \<Longrightarrow> only_input s s''"
  unfolding only_input_def by auto

lemma only_input_fields:
  assumes "only_input s s'"
  shows "heap s' = heap s" "buffers s' = buffers s" "samples s' = samples s"
    "channels s' = channels s" "sent s' = sent s" "id_cur s' = id_cur s"
    "outputStream s' = outputStream s" "originalOutputStream s' = originalOutputStream s"
    "psram s' = psram s" "allocations s' = allocations s"
  using assms unfolding only_input_def by auto

lemma readByte_t_only_input: "readByte_t s = (v, s') \<Longrightarrow> only_input s s'"
  unfolding readByte_t_def only_input_def by (auto split: prod.splits)

lemma readWord_t_only_input: "readWord_t s = (v, s') \<Longrightarrow> only_input s s'"
  unfolding readWord_t_def
  by (auto split: prod.splits if_splits
      intro: only_input_trans dest!: readByte_t_only_input)

lemma read24_t_only_input: "read24_t s = (v, s') \<Longrightarrow> only_input s s'"
  unfolding read24_t_def
  by (auto split: prod.splits if_splits
      intro: only_input_trans dest!: readByte_t_only_input)

lemma read_bytes_only_input: "read_bytes n s = (bs, s') \<Longrightarrow> only_input s s'"
proof (induction n arbitrary: s bs s')
  case 0
  then show ?case by (simp add: only_input_refl)
next
  case (Suc n)
  then show ?case
    by (auto split: prod.splits if_splits
        intro: only_input_trans dest!: readByte_t_only_input)
qed

lemma read_bytes_length: "read_bytes n s = (bs, s') \<Longrightarrow> length bs \<le> n"
  by (induction n arbitrary: s bs s') (auto split: prod.splits if_splits)

lemma readIntoBuffer_sound:
  assumes "readIntoBuffer len s = (data, remaining, s1)"
  shows "only_input s s1" "length data + remaining = len"
  using assms read_bytes_only_input read_bytes_length
  unfolding readIntoBuffer_def by (fastforce split: prod.splits)+

lemma read_bytes_Serial:
  "inputStream s = Serial bs \<Longrightarrow>
   read_bytes n s = (take n bs, s\<lparr>inputStream := Serial (drop n bs)\<rparr>)"
proof (induction n arbitrary: s bs)
  case 0
  then show ?case by simp
next
  case (Suc n)
  show ?case
  proof (cases bs)
    case Nil
    with Suc.prems show ?thesis by (simp add: readByte_t_def)
  next
    case (Cons b bs')
    with Suc.prems have rb: "readByte_t s = (uint b, s\<lparr>inputStream := Serial bs'\<rparr>)"
      by (simp add: readByte_t_def)
    have "uint b \<noteq> - 1"
      using uint_ge_0 [of b] by linarith
    with rb Cons Suc.IH [of "s\<lparr>inputStream := Serial bs'\<rparr>" bs'] show ?thesis
      by simp
  qed
qed


lemma readIntoBuffer_Serial:
  "inputStream s = Serial bs \<Longrightarrow>
   readIntoBuffer n s = (take n bs, n - length bs, s\<lparr>inputStream := Serial (drop n bs)\<rparr>)"
  by (simp add: readIntoBuffer_def read_bytes_Serial)

subsection \<open>WRITE, CREATE and SET_OUTPUT\<close>

text \<open>
  Claim C4. bufferWrite reads \<open>len\<close> bytes from the input stream, and returns the number
  of bytes that the read could not get. When that number is positive nothing is stored:
  only the input stream has changed. When it is zero and the id is not 65535, one new
  block holding the \<open>len\<close> bytes read is appended to the buffer of that id: the blocks the
  buffer had stay, in their order, and the new one comes after them; a buffer that did
  not exist has the new block alone. When the id is 65535 nothing is stored.
\<close>

theorem bufferWrite_appends_one_block:
  assumes "readIntoBuffer len s = (data, remaining, s1)"
  shows "length data + remaining = len \<and> buffers s1 = buffers s \<and> heap s1 = heap s
       \<and> samples s1 = samples s
       \<and> fst (bufferWrite bufferId len s) = remaining
       \<and> (0 < remaining \<longrightarrow> snd (bufferWrite bufferId len s) = s1)
       \<and> (remaining = 0 \<and> bufferId = 65535 \<longrightarrow> snd (bufferWrite bufferId len s) = s1)
       \<and> (remaining = 0 \<and> bufferId \<noteq> 65535 \<longrightarrow>
            length data = len
          \<and> snd (bufferWrite bufferId len s) =
              s1\<lparr>heap := heap s @ [\<lparr>bytes = data, writable = False\<rparr>],
                 buffers := (buffers s)
                   (bufferId \<mapsto> (case buffers s bufferId of None \<Rightarrow> [] | Some old \<Rightarrow> old)
                                 @ [length (heap s)])\<rparr>
          \<and> (\<forall>old. buffers s bufferId = Some old \<longrightarrow>
                buffers (snd (bufferWrite bufferId len s)) bufferId = Some (old @ [length (heap s)]))
          \<and> (buffers s bufferId = None \<longrightarrow>
                buffers (snd (bufferWrite bufferId len s)) bufferId = Some [length (heap s)])
          \<and> (\<forall>k. k \<noteq> bufferId \<longrightarrow>
                buffers (snd (bufferWrite bufferId len s)) k = buffers s k))"
proof -
  note fr = only_input_fields [OF readIntoBuffer_sound(1) [OF assms]]
  note ln = readIntoBuffer_sound(2) [OF assms]
  have "buffer_of s1 bufferId = (case buffers s bufferId of None \<Rightarrow> [] | Some old \<Rightarrow> old)"
    by (simp add: buffer_of_def fr)
  with assms fr ln show ?thesis
    by (simp add: bufferWrite_def)
qed

text \<open>
  Buffer 4 holds block 0 already: the write of two bytes makes block 1 and buffer 4 is
  then the blocks 0 and 1, the old block as it was. A write into the empty store makes
  the buffer.
\<close>

theorem bufferWrite_witness:
  "bufferWrite 4 2 (top_level [7, 9, 3] [\<lparr>bytes = [5], writable = False\<rparr>]
       ((\<lambda>k. None)(4 \<mapsto> [0])) (\<lambda>k. None) (\<lambda>c. Disabled))
     = (0, top_level [3] [\<lparr>bytes = [5], writable = False\<rparr>, \<lparr>bytes = [7, 9], writable = False\<rparr>]
             ((\<lambda>k. None)(4 \<mapsto> [0, 1])) (\<lambda>k. None) (\<lambda>c. Disabled))
   \<and> fst (bufferWrite 1 2 (top_level [7, 9, 3] [] (\<lambda>k. None) (\<lambda>k. None) (\<lambda>c. Disabled))) = 0
   \<and> heap (snd (bufferWrite 1 2 (top_level [7, 9, 3] [] (\<lambda>k. None) (\<lambda>k. None) (\<lambda>c. Disabled))))
       = [\<lparr>bytes = [7, 9], writable = False\<rparr>]
   \<and> buffers (snd (bufferWrite 1 2 (top_level [7, 9, 3] [] (\<lambda>k. None) (\<lambda>k. None) (\<lambda>c. Disabled)))) 1
       = Some [0]
   \<and> inputStream (snd (bufferWrite 1 2 (top_level [7, 9, 3] [] (\<lambda>k. None) (\<lambda>k. None) (\<lambda>c. Disabled))))
       = Serial [3]
   \<and> fst (bufferWrite 1 5 (top_level [7, 9, 3] [] (\<lambda>k. None) (\<lambda>k. None) (\<lambda>c. Disabled))) = 2
   \<and> buffers (snd (bufferWrite 1 5 (top_level [7, 9, 3] [] (\<lambda>k. None) (\<lambda>k. None) (\<lambda>c. Disabled)))) 1
       = None
   \<and> buffers (snd (bufferWrite 65535 2 (top_level [7, 9, 3] [] (\<lambda>k. None) (\<lambda>k. None) (\<lambda>c. Disabled)))) 65535
       = None"
proof -
  let ?s = "top_level [7, 9, 3] [] (\<lambda>k. None) (\<lambda>k. None) (\<lambda>c. Disabled)"
  have i: "inputStream ?s = Serial [7, 9, 3]"
    by (simp add: top_level_def)
  have r2: "readIntoBuffer 2 ?s = ([7, 9], 0, ?s\<lparr>inputStream := Serial [3]\<rparr>)"
    by (simp add: readIntoBuffer_Serial [OF i])
  have r5: "readIntoBuffer 5 ?s = ([7, 9, 3], 2, ?s\<lparr>inputStream := Serial []\<rparr>)"
    by (simp add: readIntoBuffer_Serial [OF i])
  let ?t = "top_level [7, 9, 3] [\<lparr>bytes = [5], writable = False\<rparr>]
       ((\<lambda>k. None)(4 \<mapsto> [0])) (\<lambda>k. None) (\<lambda>c. Disabled)"
  have j: "inputStream ?t = Serial [7, 9, 3]"
    by (simp add: top_level_def)
  have t2: "readIntoBuffer 2 ?t = ([7, 9], 0, ?t\<lparr>inputStream := Serial [3]\<rparr>)"
    by (simp add: readIntoBuffer_Serial [OF j])
  have "fst (bufferWrite 4 2 ?t) = 0
      \<and> snd (bufferWrite 4 2 ?t) =
          top_level [3] [\<lparr>bytes = [5], writable = False\<rparr>, \<lparr>bytes = [7, 9], writable = False\<rparr>]
             ((\<lambda>k. None)(4 \<mapsto> [0, 1])) (\<lambda>k. None) (\<lambda>c. Disabled)"
    using bufferWrite_appends_one_block [OF t2, of 4]
    by (simp add: top_level_def)
  then have first: "bufferWrite 4 2 ?t =
      (0, top_level [3] [\<lparr>bytes = [5], writable = False\<rparr>, \<lparr>bytes = [7, 9], writable = False\<rparr>]
             ((\<lambda>k. None)(4 \<mapsto> [0, 1])) (\<lambda>k. None) (\<lambda>c. Disabled))"
    by (simp add: prod_eq_iff)
  show ?thesis
    using first bufferWrite_appends_one_block [OF r2, of 1]
      bufferWrite_appends_one_block [OF r5, of 1]
      bufferWrite_appends_one_block [OF r2, of 65535]
    by (simp add: top_level_def)
qed

text \<open>
  Claim C8, as amended. Once its size is read, the BUFFERED_CREATE command stores nothing
  and changes no buffer when the id is 65535 or the buffer exists already, and
  bufferCreate returns null; the allocator is not asked. For a free id other than 65535
  the allocator is asked for the block. When it has none to give, bufferCreate returns
  null as well, and nothing is stored and no buffer changed. When it gives one, the
  buffer of that id becomes that one block of the given size, all bytes zero, and
  bufferCreate returns the pointer to it.
\<close>

theorem buffered_create_installs_zero_block:
  assumes "readWord_t s = (size', s1)" and "size' \<noteq> - 1"
  shows "buffers s1 = buffers s \<and> heap s1 = heap s
       \<and> buffers (snd (allocate s1)) = buffers s \<and> heap (snd (allocate s1)) = heap s
       \<and> (bufferId = 65535 \<or> buffers s bufferId \<noteq> None \<longrightarrow>
            bufferCreate bufferId (nat size') s1 = (None, s1)
          \<and> buffered_create bufferId s = s1)
       \<and> (bufferId \<noteq> 65535 \<and> buffers s bufferId = None \<and> \<not> fst (allocate s1) \<longrightarrow>
            bufferCreate bufferId (nat size') s1 = (None, snd (allocate s1))
          \<and> buffered_create bufferId s = snd (allocate s1))
       \<and> (bufferId \<noteq> 65535 \<and> buffers s bufferId = None \<and> fst (allocate s1) \<longrightarrow>
            fst (bufferCreate bufferId (nat size') s1) = Some (length (heap s))
          \<and> buffered_create bufferId s =
              (snd (allocate s1))
                \<lparr>heap := heap s @ [\<lparr>bytes = replicate (nat size') 0, writable = True\<rparr>],
                 buffers := (buffers s)(bufferId \<mapsto> [length (heap s)])\<rparr>)"
proof -
  note fr = only_input_fields [OF readWord_t_only_input [OF assms(1)]]
  have z: "block_at (h @ [b]) (length h) = b" for h :: "block list" and b
    by (simp add: block_at_def)
  obtain ok s2 where al: "allocate s1 = (ok, s2)"
    by (cases "allocate s1") auto
  then have fa: "buffers s2 = buffers s1" "heap s2 = heap s1" "psram s2 = psram s1"
    by (auto simp: allocate_def split: list.splits)
  show ?thesis
    using assms fr al fa
    by (auto simp: buffered_create_def bufferCreate_def memset_zero_def buffer_of_def z)
qed

lemma readWord_t_Serial:
  "inputStream s = Serial (l # h # bs) \<Longrightarrow>
   readWord_t s = (push_bit 8 (uint h) OR uint l, s\<lparr>inputStream := Serial bs\<rparr>)"
  by (simp add: readWord_t_def readByte_t_def)

text \<open>
  CREATE of buffer 3 with size 2, then a second CREATE of buffer 4 for which the
  allocator has no memory: buffer 3 is one block of two zero bytes, and there is no
  buffer 4. CREATE of buffer 65535 stores nothing.
\<close>

theorem buffered_create_witness:
  "buffered_create 3 (top_level [2, 0, 9] [] (\<lambda>k. None) (\<lambda>k. None) (\<lambda>c. Disabled)) =
     (top_level [9] [\<lparr>bytes = [0, 0], writable = True\<rparr>] ((\<lambda>k. None)(3 \<mapsto> [0])) (\<lambda>k. None) (\<lambda>c. Disabled))
   \<and> buffered_create 65535 (top_level [2, 0, 9] [] (\<lambda>k. None) (\<lambda>k. None) (\<lambda>c. Disabled)) =
     top_level [9] [] (\<lambda>k. None) (\<lambda>k. None) (\<lambda>c. Disabled)
   \<and> buffered_create 4
       ((top_level [2, 0, 9] [\<lparr>bytes = [0, 0], writable = True\<rparr>] ((\<lambda>k. None)(3 \<mapsto> [0]))
           (\<lambda>k. None) (\<lambda>c. Disabled))\<lparr>allocations := [False]\<rparr>) =
     top_level [9] [\<lparr>bytes = [0, 0], writable = True\<rparr>] ((\<lambda>k. None)(3 \<mapsto> [0])) (\<lambda>k. None) (\<lambda>c. Disabled)"
proof -
  let ?s = "top_level [2, 0, 9] [] (\<lambda>k. None) (\<lambda>k. None) (\<lambda>c. Disabled)"
  let ?t = "(top_level [2, 0, 9] [\<lparr>bytes = [0, 0], writable = True\<rparr>] ((\<lambda>k. None)(3 \<mapsto> [0]))
           (\<lambda>k. None) (\<lambda>c. Disabled))\<lparr>allocations := [False]\<rparr>"
  have i: "inputStream ?s = Serial [2, 0, 9]"
    by (simp add: top_level_def)
  have r: "readWord_t ?s = (2, ?s\<lparr>inputStream := Serial [9]\<rparr>)"
    by (simp add: readWord_t_Serial [OF i])
  have j: "inputStream ?t = Serial [2, 0, 9]"
    by (simp add: top_level_def)
  have q: "readWord_t ?t = (2, ?t\<lparr>inputStream := Serial [9]\<rparr>)"
    by (simp add: readWord_t_Serial [OF j])
  have n: "(2::int) \<noteq> - 1" by simp
  show ?thesis
    using buffered_create_installs_zero_block [OF r n, of 3]
      buffered_create_installs_zero_block [OF r n, of 65535]
      buffered_create_installs_zero_block [OF q n, of 4]
    by (simp add: top_level_def allocate_def numeral_2_eq_2)
qed

text \<open>
  The claim as stated fails: buffer 3 does not exist and 3 is not 65535, but the
  allocator has no memory for the block. bufferCreate returns null, and after the
  command there is still no buffer 3 and no block.
\<close>

theorem buffered_create_counterexample:
  "buffers ((top_level [2, 0] [] (\<lambda>k. None) (\<lambda>k. None) (\<lambda>c. Disabled))\<lparr>allocations := [False]\<rparr>) 3 = None
   \<and> fst (bufferCreate 3 2
        ((top_level [] [] (\<lambda>k. None) (\<lambda>k. None) (\<lambda>c. Disabled))\<lparr>allocations := [False]\<rparr>)) = None
   \<and> buffers (buffered_create 3
        ((top_level [2, 0] [] (\<lambda>k. None) (\<lambda>k. None) (\<lambda>c. Disabled))\<lparr>allocations := [False]\<rparr>)) 3 = None
   \<and> heap (buffered_create 3
        ((top_level [2, 0] [] (\<lambda>k. None) (\<lambda>k. None) (\<lambda>c. Disabled))\<lparr>allocations := [False]\<rparr>)) = []"
  by (simp add: buffered_create_def bufferCreate_def allocate_def readWord_t_def readByte_t_def
      top_level_def)

text \<open>
  Claim C10. setOutputStream with id 65535 sets the output stream to null, with id 0 to
  the original output stream. With any other id the output stream becomes the first block
  of that buffer when the buffer exists, is not empty and its first block is writable;
  in every other case the state is unchanged.
\<close>

theorem setOutputStream_cases:
  "(bufferId = 65535 \<longrightarrow> setOutputStream bufferId s = s\<lparr>outputStream := Null_stream\<rparr>)
   \<and> (bufferId = 0 \<longrightarrow> setOutputStream bufferId s = s\<lparr>outputStream := originalOutputStream s\<rparr>)
   \<and> (bufferId \<noteq> 65535 \<and> bufferId \<noteq> 0 \<longrightarrow>
        (\<forall>a rest. buffers s bufferId = Some (a # rest) \<and> writable (block_at (heap s) a) \<longrightarrow>
           setOutputStream bufferId s = s\<lparr>outputStream := Block_stream a\<rparr>)
      \<and> ((\<forall>a rest. buffers s bufferId = Some (a # rest) \<longrightarrow> \<not> writable (block_at (heap s) a)) \<longrightarrow>
           setOutputStream bufferId s = s))"
  by (auto simp: setOutputStream_def neq_Nil_conv split: option.splits)

theorem setOutputStream_witness:
  "setOutputStream 65535 (top_level [] [\<lparr>bytes = [0], writable = True\<rparr>, \<lparr>bytes = [1], writable = False\<rparr>]
       ((\<lambda>k. None)(4 \<mapsto> [0, 1], 5 \<mapsto> [1, 0], 6 \<mapsto> [])) (\<lambda>k. None) (\<lambda>c. Disabled))
     = (top_level [] [\<lparr>bytes = [0], writable = True\<rparr>, \<lparr>bytes = [1], writable = False\<rparr>]
       ((\<lambda>k. None)(4 \<mapsto> [0, 1], 5 \<mapsto> [1, 0], 6 \<mapsto> [])) (\<lambda>k. None) (\<lambda>c. Disabled))\<lparr>outputStream := Null_stream\<rparr>
   \<and> outputStream (setOutputStream 4 (top_level [] [\<lparr>bytes = [0], writable = True\<rparr>, \<lparr>bytes = [1], writable = False\<rparr>]
       ((\<lambda>k. None)(4 \<mapsto> [0, 1], 5 \<mapsto> [1, 0], 6 \<mapsto> [])) (\<lambda>k. None) (\<lambda>c. Disabled))) = Block_stream 0
   \<and> outputStream (setOutputStream 5 (top_level [] [\<lparr>bytes = [0], writable = True\<rparr>, \<lparr>bytes = [1], writable = False\<rparr>]
       ((\<lambda>k. None)(4 \<mapsto> [0, 1], 5 \<mapsto> [1, 0], 6 \<mapsto> [])) (\<lambda>k. None) (\<lambda>c. Disabled))) = Port_stream
   \<and> outputStream (setOutputStream 6 (top_level [] [\<lparr>bytes = [0], writable = True\<rparr>, \<lparr>bytes = [1], writable = False\<rparr>]
       ((\<lambda>k. None)(4 \<mapsto> [0, 1], 5 \<mapsto> [1, 0], 6 \<mapsto> [])) (\<lambda>k. None) (\<lambda>c. Disabled))) = Port_stream
   \<and> outputStream (setOutputStream 7 (top_level [] [\<lparr>bytes = [0], writable = True\<rparr>, \<lparr>bytes = [1], writable = False\<rparr>]
       ((\<lambda>k. None)(4 \<mapsto> [0, 1], 5 \<mapsto> [1, 0], 6 \<mapsto> [])) (\<lambda>k. None) (\<lambda>c. Disabled))) = Port_stream"
proof -
  let ?s = "top_level [] [\<lparr>bytes = [0], writable = True\<rparr>, \<lparr>bytes = [1], writable = False\<rparr>]
       ((\<lambda>k. None)(4 \<mapsto> [0, 1], 5 \<mapsto> [1, 0], 6 \<mapsto> [])) (\<lambda>k. None) (\<lambda>c. Disabled)"
  show ?thesis
    using setOutputStream_cases [of 65535 ?s] setOutputStream_cases [of 4 ?s]
      setOutputStream_cases [of 5 ?s] setOutputStream_cases [of 6 ?s]
      setOutputStream_cases [of 7 ?s]
    by (simp add: top_level_def block_at_def)
qed

subsection \<open>CLEAR\<close>

text \<open>
  Claim C5, as amended. After bufferClear(65535) the buffer store is empty, and so is the
  sample store: the clear resets the samples too, so no sample that existed before is
  left. A clear changes no block. A clear of one buffer id leaves every sample under
  another id as it was, and changes nothing at all when that buffer does not exist.
\<close>

theorem bufferClear_all_drops_samples:
  "buffers (bufferClear 65535 s) = (\<lambda>k. None)
   \<and> samples (bufferClear 65535 s) = (\<lambda>k. None)
   \<and> heap (bufferClear bufferId s) = heap s
   \<and> (bufferId \<noteq> 65535 \<longrightarrow>
        (\<forall>k. k \<noteq> bufferId \<longrightarrow> samples (bufferClear bufferId s) k = samples s k)
      \<and> (buffers s bufferId = None \<longrightarrow> bufferClear bufferId s = s))"
  by (auto simp: bufferClear_def resetSamples_def clearSample_def split: option.splits)

text \<open>
  The claim as stated fails: buffer 7 and a sample made from it; after bufferClear(65535)
  there is no sample 7.
\<close>

theorem bufferClear_all_counterexample:
  "samples (top_level [] [\<lparr>bytes = [1, 2], writable = False\<rparr>] ((\<lambda>k. None)(7 \<mapsto> [0]))
      ((\<lambda>k. None)(7 \<mapsto> sample7)) (\<lambda>c. Idle)) 7 = Some sample7
   \<and> samples (bufferClear 65535
        (top_level [] [\<lparr>bytes = [1, 2], writable = False\<rparr>] ((\<lambda>k. None)(7 \<mapsto> [0]))
           ((\<lambda>k. None)(7 \<mapsto> sample7)) (\<lambda>c. Idle))) 7 = None"
  by (simp add: bufferClear_def resetSamples_def top_level_def)

theorem bufferClear_witness:
  "samples (bufferClear 7
        (top_level [] [\<lparr>bytes = [1, 2], writable = False\<rparr>] ((\<lambda>k. None)(7 \<mapsto> [0], 8 \<mapsto> [0]))
           ((\<lambda>k. None)(7 \<mapsto> sample7, 8 \<mapsto> sample7)) (\<lambda>c. Idle))) 8 = Some sample7
   \<and> heap (bufferClear 7
        (top_level [] [\<lparr>bytes = [1, 2], writable = False\<rparr>] ((\<lambda>k. None)(7 \<mapsto> [0], 8 \<mapsto> [0]))
           ((\<lambda>k. None)(7 \<mapsto> sample7, 8 \<mapsto> sample7)) (\<lambda>c. Idle))) = [\<lparr>bytes = [1, 2], writable = False\<rparr>]
   \<and> bufferClear 9
        (top_level [] [\<lparr>bytes = [1, 2], writable = False\<rparr>] ((\<lambda>k. None)(7 \<mapsto> [0], 8 \<mapsto> [0]))
           ((\<lambda>k. None)(7 \<mapsto> sample7, 8 \<mapsto> sample7)) (\<lambda>c. Idle))
       = top_level [] [\<lparr>bytes = [1, 2], writable = False\<rparr>] ((\<lambda>k. None)(7 \<mapsto> [0], 8 \<mapsto> [0]))
           ((\<lambda>k. None)(7 \<mapsto> sample7, 8 \<mapsto> sample7)) (\<lambda>c. Idle)"
proof -
  let ?s = "top_level [] [\<lparr>bytes = [1, 2], writable = False\<rparr>] ((\<lambda>k. None)(7 \<mapsto> [0], 8 \<mapsto> [0]))
           ((\<lambda>k. None)(7 \<mapsto> sample7, 8 \<mapsto> sample7)) (\<lambda>c. Idle)"
  show ?thesis
    using bufferClear_all_drops_samples [of ?s 7] bufferClear_all_drops_samples [of ?s 9]
    by (simp add: top_level_def)
qed

subsection \<open>CALL and JUMP\<close>

text \<open>
  Claim C2. In a processor that runs a buffer (its id is not 65535) and whose input stream
  has no byte available, bufferCall on a target that resolves to an existing buffer is
  bufferJump on that target with the same offset, whether the target is taken as given
  or as resolved: only the input stream changes, and no nested processor is run.
\<close>

theorem bufferCall_tail_call_is_jump:
  assumes "id_cur s \<noteq> 65535"
    and "available (heap s) (inputStream s) = 0"
    and "resolveBufferId (int target) (id_cur s) = bufferId"
    and "bufferId \<noteq> - 1"
    and "buffers s (nat bufferId) = Some streams"
  shows "bufferCall run target offset s = bufferJump run (nat bufferId) offset s
       \<and> bufferCall run target offset s = bufferJump run target offset s
       \<and> bufferCall run target offset s =
           s\<lparr>inputStream :=
               (if target = 65535 \<or> target = id_cur s
                then seekTo (inputStream s) (blockOffset offset) (blockIndex offset)
                else stream_at streams offset)\<rparr>"
proof -
  have call: "bufferCall run target offset s = bufferJump run (nat bufferId) offset s"
    using assms by (simp add: bufferCall.simps)
  have b: "nat bufferId = (if target = 65535 then id_cur s else target)"
    using assms(1,3) by (auto simp: resolveBufferId_def)
  have "bufferJump run (nat bufferId) offset s = bufferJump run target offset s"
    using assms(1) b by (simp add: bufferJump.simps)
  moreover have "bufferJump run (nat bufferId) offset s =
      s\<lparr>inputStream :=
          (if target = 65535 \<or> target = id_cur s
           then seekTo (inputStream s) (blockOffset offset) (blockIndex offset)
           else stream_at streams offset)\<rparr>"
    using assms(1,5) b by (auto simp: bufferJump.simps)
  ultimately show ?thesis
    using call by simp
qed

theorem bufferCall_tail_call_witness:
  "bufferCall no_run 8 offset_zero
     (nested 7 (MultiBufferStream [0] \<lparr>blockOffset = 1, blockIndex = 0\<rparr>)
        [\<lparr>bytes = [9], writable = False\<rparr>, \<lparr>bytes = [5, 6], writable = False\<rparr>]
        ((\<lambda>k. None)(7 \<mapsto> [0], 8 \<mapsto> [1])))
   = nested 7 (MultiBufferStream [1] \<lparr>blockOffset = 0, blockIndex = 0\<rparr>)
        [\<lparr>bytes = [9], writable = False\<rparr>, \<lparr>bytes = [5, 6], writable = False\<rparr>]
        ((\<lambda>k. None)(7 \<mapsto> [0], 8 \<mapsto> [1]))"
proof -
  let ?s = "nested 7 (MultiBufferStream [0] \<lparr>blockOffset = 1, blockIndex = 0\<rparr>)
        [\<lparr>bytes = [9], writable = False\<rparr>, \<lparr>bytes = [5, 6], writable = False\<rparr>]
        ((\<lambda>k. None)(7 \<mapsto> [0], 8 \<mapsto> [1]))"
  have 1: "id_cur ?s \<noteq> 65535" by (simp add: nested_def)
  have 2: "available (heap ?s) (inputStream ?s) = 0"
    by (simp add: nested_def find_block.simps block_size_def block_at_def)
  have 3: "resolveBufferId (int 8) (id_cur ?s) = 8" by (simp add: resolveBufferId_def)
  have 4: "(8::int) \<noteq> - 1" by simp
  have 5: "buffers ?s (nat 8) = Some [1]" by (simp add: nested_def)
  show ?thesis
    using bufferCall_tail_call_is_jump [OF 1 2 3 4 5, of no_run offset_zero, THEN conjunct2, THEN conjunct2]
    by (simp add: nested_def stream_at_def offset_zero_def new_MultiBufferStream_def)
qed

text \<open>
  Claim C7. bufferJump in the top-level processor (id 65535) is bufferCall with the same
  target and offset. Otherwise, when the target is the current buffer or 65535, it seeks
  the input stream in place to the offset; and for any other target, when that buffer
  exists, the input stream becomes a new stream over its blocks, seeked to the offset
  when the offset is not zero.
\<close>

theorem bufferJump_cases:
  "(id_cur s = 65535 \<longrightarrow> bufferJump run target offset s = bufferCall run target offset s)
   \<and> (id_cur s \<noteq> 65535 \<and> (target = id_cur s \<or> target = 65535) \<longrightarrow>
        bufferJump run target offset s =
          s\<lparr>inputStream := seekTo (inputStream s) (blockOffset offset) (blockIndex offset)\<rparr>)
   \<and> (id_cur s \<noteq> 65535 \<and> target \<noteq> id_cur s \<and> target \<noteq> 65535 \<longrightarrow>
        (\<forall>streams. buffers s target = Some streams \<longrightarrow>
           bufferJump run target offset s =
             s\<lparr>inputStream :=
                 (if blockOffset offset \<noteq> 0 \<or> blockIndex offset \<noteq> 0
                  then seekTo (new_MultiBufferStream streams) (blockOffset offset) (blockIndex offset)
                  else new_MultiBufferStream streams)\<rparr>)
      \<and> (buffers s target = None \<longrightarrow> bufferJump run target offset s = s))"
  by (simp add: bufferJump.simps stream_at_def)

theorem bufferJump_witness:
  "bufferJump no_run 8 \<lparr>blockOffset = 1, blockIndex = 0\<rparr>
     (nested 7 (MultiBufferStream [0] \<lparr>blockOffset = 0, blockIndex = 0\<rparr>)
        [\<lparr>bytes = [9], writable = False\<rparr>, \<lparr>bytes = [5, 6], writable = False\<rparr>]
        ((\<lambda>k. None)(7 \<mapsto> [0], 8 \<mapsto> [1])))
   = nested 7 (MultiBufferStream [1] \<lparr>blockOffset = 1, blockIndex = 0\<rparr>)
        [\<lparr>bytes = [9], writable = False\<rparr>, \<lparr>bytes = [5, 6], writable = False\<rparr>]
        ((\<lambda>k. None)(7 \<mapsto> [0], 8 \<mapsto> [1]))
   \<and> bufferJump no_run 65535 \<lparr>blockOffset = 0, blockIndex = 4294967295\<rparr>
     (nested 7 (MultiBufferStream [0] \<lparr>blockOffset = 0, blockIndex = 0\<rparr>)
        [\<lparr>bytes = [9], writable = False\<rparr>, \<lparr>bytes = [5, 6], writable = False\<rparr>]
        ((\<lambda>k. None)(7 \<mapsto> [0], 8 \<mapsto> [1])))
   = nested 7 (MultiBufferStream [0] \<lparr>blockOffset = 0, blockIndex = 4294967295\<rparr>)
        [\<lparr>bytes = [9], writable = False\<rparr>, \<lparr>bytes = [5, 6], writable = False\<rparr>]
        ((\<lambda>k. None)(7 \<mapsto> [0], 8 \<mapsto> [1]))
   \<and> bufferJump no_run 8 offset_zero
        (top_level [] [\<lparr>bytes = [9], writable = False\<rparr>] ((\<lambda>k. None)(8 \<mapsto> [0])) (\<lambda>k. None) (\<lambda>c. Idle))
   = bufferCall no_run 8 offset_zero
        (top_level [] [\<lparr>bytes = [9], writable = False\<rparr>] ((\<lambda>k. None)(8 \<mapsto> [0])) (\<lambda>k. None) (\<lambda>c. Idle))"
proof -
  let ?s = "nested 7 (MultiBufferStream [0] \<lparr>blockOffset = 0, blockIndex = 0\<rparr>)
        [\<lparr>bytes = [9], writable = False\<rparr>, \<lparr>bytes = [5, 6], writable = False\<rparr>]
        ((\<lambda>k. None)(7 \<mapsto> [0], 8 \<mapsto> [1]))"
  let ?t = "top_level [] [\<lparr>bytes = [9], writable = False\<rparr>] ((\<lambda>k. None)(8 \<mapsto> [0])) (\<lambda>k. None) (\<lambda>c. Idle)"
  show ?thesis
    using bufferJump_cases [of ?s no_run 8 "\<lparr>blockOffset = 1, blockIndex = 0\<rparr>"]
      bufferJump_cases [of ?s no_run 65535 "\<lparr>blockOffset = 0, blockIndex = 4294967295\<rparr>"]
      bufferJump_cases [of ?t no_run 8 offset_zero]
    by (simp add: nested_def top_level_def new_MultiBufferStream_def offset_zero_def)
qed

subsection \<open>ADJUST with carry\<close>

text \<open>One round of the loop, for a count written as a numeral.\<close>

lemmas adjust_loop_numeral =
  adjust_loop.simps(2) [of "pred_numeral k", folded numeral_eq_Suc] for k

lemma readByte_t_Serial:
  "inputStream s = Serial (b # bs) \<Longrightarrow> readByte_t s = (uint b, s\<lparr>inputStream := Serial bs\<rparr>)"
  by (simp add: readByte_t_def)

lemma uint_not_minus_one: "uint (b :: u8) \<noteq> - 1"
  using uint_ge_0 [of b] by linarith

text \<open>
  Claim C3, as amended. Buffer 5 is one block whose bytes start 0xFF, 0x00, 0x00. ADJUST
  with the operation ADC, MULTI_TARGET set, a 16-bit offset 0 and count 3, and the one
  inline operand 0x01 adds the operand to each of the three bytes, the carry running
  from one to the next: they become 0x00, 0x02, 0x01. The last carry, 0x00, is then
  written at offset 3 when the block has a byte there. When the block is three bytes
  long the command ends at that point: it adds no byte to the block, and the three sums
  stay written.
\<close>

theorem bufferAdjust_adc_multi_target:
  assumes op: "take_bit 8 (uint cmd AND ADJUST_OP_MASK K) = ADJUST_ADD_CARRY"
    and mt: "uint cmd AND ADJUST_MULTI_TARGET K \<noteq> 0"
    and mo: "uint cmd AND ADJUST_MULTI_OPERAND K = 0"
    and adv: "uint cmd AND ADJUST_ADVANCED_OFFSETS K = 0"
    and bv: "uint cmd AND ADJUST_BUFFER_VALUE K = 0"
    and input: "inputStream s = Serial (cmd # 0 # 0 # 3 # 0 # 1 # rest)"
    and buffer: "buffers s 5 = Some [a]"
    and block: "a < length (heap s)" "bytes (heap s ! a) = 0xFF # 0 # 0 # tail"
  shows "bufferAdjust K 5 s =
           s\<lparr>inputStream := Serial rest,
             heap := (heap s)[a := (heap s ! a)
                       \<lparr>bytes := 0 # 2 # 1 # (case tail of [] \<Rightarrow> [] | t # ts \<Rightarrow> 0 # ts)\<rparr>]\<rparr>"
  using assms
  by (cases tail)
    (simp_all add: bufferAdjust_def readByte_t_def readWord_t_def getOffsetFromStream_def
      offset_zero_def u32_of_int_def minus_one_u32_def resolveBufferId_def adjust_apply_def Let_def
      ADJUST_NEG_def ADJUST_NOT_def ADJUST_SET_def ADJUST_ADD_def ADJUST_ADD_CARRY_def adjust_op_def
      read_operand_def getBufferByte_def setBufferByte_def find_block.simps block_at_def block_size_def
      adjust_loop_numeral uint_not_minus_one)

theorem bufferAdjust_adc_witness:
  "bufferAdjust example_consts 5
     (top_level [0x44, 0, 0, 3, 0, 1, 7] [\<lparr>bytes = [0xFF, 0, 0, 0x55], writable = False\<rparr>]
        ((\<lambda>k. None)(5 \<mapsto> [0])) (\<lambda>k. None) (\<lambda>c. Idle))
   = top_level [7] [\<lparr>bytes = [0, 2, 1, 0], writable = False\<rparr>]
        ((\<lambda>k. None)(5 \<mapsto> [0])) (\<lambda>k. None) (\<lambda>c. Idle)"
proof -
  let ?s = "top_level [0x44, 0, 0, 3, 0, 1, 7] [\<lparr>bytes = [0xFF, 0, 0, 0x55], writable = False\<rparr>]
        ((\<lambda>k. None)(5 \<mapsto> [0])) (\<lambda>k. None) (\<lambda>c. Idle)"
  have 1: "take_bit 8 (uint (0x44 :: u8) AND ADJUST_OP_MASK example_consts) = ADJUST_ADD_CARRY"
    by (simp add: example_consts_def ADJUST_ADD_CARRY_def)
  have 2: "uint (0x44 :: u8) AND ADJUST_MULTI_TARGET example_consts \<noteq> 0"
    by (simp add: example_consts_def)
  have 3: "uint (0x44 :: u8) AND ADJUST_MULTI_OPERAND example_consts = 0"
    by (simp add: example_consts_def)
  have 4: "uint (0x44 :: u8) AND ADJUST_ADVANCED_OFFSETS example_consts = 0"
    by (simp add: example_consts_def)
  have 5: "uint (0x44 :: u8) AND ADJUST_BUFFER_VALUE example_consts = 0"
    by (simp add: example_consts_def)
  have 6: "inputStream ?s = Serial (0x44 # 0 # 0 # 3 # 0 # 1 # [7])"
    by (simp add: top_level_def)
  have 7: "buffers ?s 5 = Some [0]"
    by (simp add: top_level_def)
  have 8: "0 < length (heap ?s)"
    by (simp add: top_level_def)
  have 9: "bytes (heap ?s ! 0) = 0xFF # 0 # 0 # [0x55]"
    by (simp add: top_level_def)
  show ?thesis
    using bufferAdjust_adc_multi_target [OF 1 2 3 4 5 6 7 8 9]
    by (simp add: top_level_def)
qed

text \<open>
  The claim as stated fails on the three-byte buffer 0xFF, 0x00, 0x00: the bytes become
  0x00, 0x02, 0x01 and not 0x00, 0x01, 0x00, and the block is still three bytes long, so
  no carry byte was created at offset 3.
\<close>

theorem bufferAdjust_adc_counterexample:
  "bytes (block_at (heap (bufferAdjust example_consts 5
       (top_level [0x44, 0, 0, 3, 0, 1] [\<lparr>bytes = [0xFF, 0, 0], writable = False\<rparr>]
          ((\<lambda>k. None)(5 \<mapsto> [0])) (\<lambda>k. None) (\<lambda>c. Idle)))) 0) = [0x00, 0x02, 0x01]
   \<and> bytes (block_at (heap (bufferAdjust example_consts 5
       (top_level [0x44, 0, 0, 3, 0, 1] [\<lparr>bytes = [0xFF, 0, 0], writable = False\<rparr>]
          ((\<lambda>k. None)(5 \<mapsto> [0])) (\<lambda>k. None) (\<lambda>c. Idle)))) 0) \<noteq> [0x00, 0x01, 0x00]
   \<and> block_size (heap (bufferAdjust example_consts 5
       (top_level [0x44, 0, 0, 3, 0, 1] [\<lparr>bytes = [0xFF, 0, 0], writable = False\<rparr>]
          ((\<lambda>k. None)(5 \<mapsto> [0])) (\<lambda>k. None) (\<lambda>c. Idle)))) 0 = 3"
  by (simp add: top_level_def example_consts_def bufferAdjust_def readByte_t_def readWord_t_def
      getOffsetFromStream_def offset_zero_def u32_of_int_def minus_one_u32_def resolveBufferId_def
      adjust_apply_def Let_def ADJUST_NEG_def ADJUST_NOT_def ADJUST_SET_def ADJUST_ADD_def
      ADJUST_ADD_CARRY_def adjust_op_def read_operand_def getBufferByte_def setBufferByte_def
      find_block.simps block_at_def block_size_def adjust_loop_numeral)

subsection \<open>REVERSE\<close>

text \<open>
  With a value size that is not zero, a block whose size the value size or the chunk size
  does not divide ends bufferReverse before any block is touched.
\<close>

lemma verify_blocks_mismatch:
  assumes "valueSize \<noteq> 0"
    and "\<exists>a\<in>set buffer. block_size h a mod valueSize \<noteq> 0
           \<or> (chunkSize \<noteq> 0 \<and> block_size h a mod chunkSize \<noteq> 0)"
  shows "verify_blocks h buffer valueSize chunkSize = Inr False"
  using assms by (induction buffer) auto

lemma bufferReverse_mismatch_unchanged:
  assumes "buffers s bufferId = Some buffer"
    and "(if options AND REVERSE_SIZE K = REVERSE_SIZE K then readWord_t s
          else if options AND REVERSE_32BIT K \<noteq> 0 then (4, s)
          else if options AND REVERSE_16BIT K \<noteq> 0 then (2, s)
          else (1, s)) = (valueSize, s1)"
    and "(if options AND REVERSE_CHUNKED K \<noteq> 0 then readWord_t s1 else (0, s1)) = (chunkSize, s2)"
    and "0 < valueSize" and "0 \<le> chunkSize"
    and "\<exists>a\<in>set buffer. block_size (heap s) a mod nat valueSize \<noteq> 0
           \<or> (chunkSize \<noteq> 0 \<and> block_size (heap s) a mod nat chunkSize \<noteq> 0)"
  shows "bufferReverse K bufferId options s = Inr s2 \<and> only_input s s2"
proof -
  have i1: "only_input s s1"
    using assms(2) by (auto split: if_splits intro: only_input_refl readWord_t_only_input)
  have i2: "only_input s1 s2"
    using assms(3) by (auto split: if_splits intro: only_input_refl readWord_t_only_input)
  have h: "heap s2 = heap s"
    using only_input_fields(1) [OF i1] only_input_fields(1) [OF i2] by simp
  have "\<exists>a\<in>set buffer. block_size (heap s2) a mod nat valueSize \<noteq> 0
           \<or> (nat chunkSize \<noteq> 0 \<and> block_size (heap s2) a mod nat chunkSize \<noteq> 0)"
    using assms(5,6) h by auto
  with assms(4) have "verify_blocks (heap s2) buffer (nat valueSize) (nat chunkSize) = Inr False"
    by (intro verify_blocks_mismatch) auto
  with assms(1-5) show ?thesis
    using only_input_trans [OF i1 i2] by (simp add: bufferReverse_def Let_def)
qed

text \<open>
  The model of the reversal at work: two-byte values, the block 1, 2, 3, 4 and the block
  5, 6, and the order of the blocks reversed as well.
\<close>

lemma bufferReverse_example:
  "bufferReverse example_consts 5 0x09
     (top_level [] [\<lparr>bytes = [1, 2, 3, 4], writable = False\<rparr>, \<lparr>bytes = [5, 6], writable = False\<rparr>]
        ((\<lambda>k. None)(5 \<mapsto> [0, 1])) (\<lambda>k. None) (\<lambda>c. Idle))
   = Inr (top_level [] [\<lparr>bytes = [3, 4, 1, 2], writable = False\<rparr>, \<lparr>bytes = [5, 6], writable = False\<rparr>]
        ((\<lambda>k. None)(5 \<mapsto> [1, 0])) (\<lambda>k. None) (\<lambda>c. Idle))"
  by (simp add: bufferReverse_def example_consts_def top_level_def Let_def block_size_def
      block_at_def reverse_block_def reverseValues_def chop.simps fun_upd_twist)

text \<open>
  Claim C6. The claim has bufferReverse end without a change whenever the value size
  does not divide a block's size, and it holds for every value size but zero, as
  \<open>bufferReverse_mismatch_unchanged\<close> shows. With the option REVERSE_SIZE, no chunk size
  and the value size 0 read from the input, bufferReverse on a buffer that has a block
  divides by zero in its check \<^verbatim>\<open>size % valueSize\<close>, whatever the size of the block. The
  chunk size in the same condition is guarded by \<^verbatim>\<open>chunkSize != 0\<close>; the value size is
  not.
\<close>

theorem bufferReverse_size_zero_divides_by_zero:
  assumes "buffers s bufferId = Some (a # buffer)"
    and "options AND REVERSE_SIZE K = REVERSE_SIZE K"
    and "options AND REVERSE_CHUNKED K = 0"
    and "readWord_t s = (0, s1)"
  shows "bufferReverse K bufferId options s = Inl IntegerDivideByZero"
  using assms by (simp add: bufferReverse_def Let_def)

theorem bufferReverse_size_zero_witness:
  "bufferReverse example_consts 5 3
     (top_level [0, 0] [\<lparr>bytes = [1, 2, 3], writable = False\<rparr>]
        ((\<lambda>k. None)(5 \<mapsto> [0])) (\<lambda>k. None) (\<lambda>c. Idle)) = Inl IntegerDivideByZero"
proof -
  let ?s = "top_level [0, 0] [\<lparr>bytes = [1, 2, 3], writable = False\<rparr>]
        ((\<lambda>k. None)(5 \<mapsto> [0])) (\<lambda>k. None) (\<lambda>c. Idle)"
  have 1: "buffers ?s 5 = Some (0 # [])" by (simp add: top_level_def)
  have 2: "(3::int) AND REVERSE_SIZE example_consts = REVERSE_SIZE example_consts"
    by (simp add: example_consts_def)
  have 3: "(3::int) AND REVERSE_CHUNKED example_consts = 0"
    by (simp add: example_consts_def)
  have i: "inputStream ?s = Serial [0, 0]" by (simp add: top_level_def)
  have 4: "readWord_t ?s = (0, ?s\<lparr>inputStream := Serial []\<rparr>)"
    by (simp add: readWord_t_Serial [OF i])
  show ?thesis
    by (rule bufferReverse_size_zero_divides_by_zero [OF 1 2 3 4])
qed

subsection \<open>Audio status packets\<close>

lemma reader_simps:
  "reader readByte_t" "reader readWord_t" "reader read24_t"
  "reader (if c then readWord_t else readByte_t)"
  unfolding reader_def
  by (auto intro: readByte_t_only_input readWord_t_only_input read24_t_only_input)

lemma reading_ok:
  "readByte_t s = (x, s') \<Longrightarrow> x \<noteq> - 1 \<Longrightarrow> reading readByte_t s rest = rest x s'"
  by (simp add: reading_def)

lemma read_field_simps:
  "read_field U8 = readByte_t" "read_field U16 = readWord_t" "read_field U24 = read24_t"
  "read_field (if c then U16 else U8) = (if c then readWord_t else readByte_t)"
  by (simp_all add: read_field_def)

lemma reader_read_field: "reader (read_field f)"
  by (cases f) (simp_all add: read_field_simps reader_simps)

lemma read_field_only_input: "read_field f s = (v, s') \<Longrightarrow> only_input s s'"
  using reader_read_field [of f] by (simp add: reader_def)

text \<open>Reading a payload changes nothing but the input stream.\<close>

lemma read_layout_only_input: "read_layout L s = (ok, s') \<Longrightarrow> only_input s s'"
proof (induction L arbitrary: s ok s')
  case End_of_payload
  then show ?case by (simp add: only_input_refl)
next
  case (Field f rest)
  obtain v s1 where rd: "read_field f s = (v, s1)"
    by (cases "read_field f s") auto
  note i = read_field_only_input [OF rd]
  show ?case
  proof (cases "v = - 1")
    case True
    with Field.prems rd i show ?thesis by simp
  next
    case False
    with Field.prems rd have "read_layout (rest v) s1 = (ok, s')" by simp
    then have "only_input s1 s'"
      by (rule Field.IH [OF rangeI])
    with i show ?thesis by (rule only_input_trans)
  qed
qed

lemma read_layout_sent: "sent (snd (read_layout L s)) = sent s"
  by (rule only_input_fields(5) [OF read_layout_only_input [OF surjective_pairing]])









































lemmas AUDIO_CMD_defs = AUDIO_CMD_PLAY_def AUDIO_CMD_STATUS_def AUDIO_CMD_VOLUME_def
  AUDIO_CMD_FREQUENCY_def AUDIO_CMD_WAVEFORM_def AUDIO_CMD_SAMPLE_def AUDIO_CMD_ENV_VOLUME_def
  AUDIO_CMD_ENV_FREQUENCY_def AUDIO_CMD_ENABLE_def AUDIO_CMD_DISABLE_def AUDIO_CMD_RESET_def
  AUDIO_CMD_SEEK_def AUDIO_CMD_DURATION_def AUDIO_CMD_SAMPLERATE_def AUDIO_CMD_SET_PARAM_def


text \<open>A command code above 14 has no case: the call ends there, and nothing is sent.\<close>

lemma vdu_sys_audio_unknown:
  assumes "readByte_t s = (channel, s1)" and "channel \<noteq> - 1"
    and "readByte_t s1 = (command, s2)" and "command \<noteq> - 1"
    and "14 < command"
  shows "vdu_sys_audio ops A s = (Completed, s2)"
  unfolding vdu_sys_audio_def reading_ok [OF assms(1,2)] reading_ok [OF assms(3,4)]
  using assms(5) by (simp add: AUDIO_CMD_defs)


















text \<open>
  What the amended claim leaves out. The sample action DEBUG_INFO for an id without a
  sample sends nothing and leaves a null entry under that id in the sample store. A
  later BUFFER_SET_FREQUENCY for the id finds the entry and writes through the null
  pointer: the call ends in a fault, and no status is sent.
\<close>

lemma debug_info_adds_null_entry:
  "vdu_sys_audio accepting_ops example_audio_consts
       (top_level [0, 5, 16, 9, 0] [] (\<lambda>k. None) (\<lambda>k. None) (\<lambda>c. Idle))
     = (Completed, top_level [] [] (\<lambda>k. None) ((\<lambda>k. None)(9 \<mapsto> Null_sample)) (\<lambda>c. Idle))"
  by (simp add: vdu_sys_audio_def vdu_sys_audio_sample_def reading_def readByte_t_def
      readWord_t_def AUDIO_CMD_defs example_audio_consts_def top_level_def Let_def)

lemma set_frequency_of_null_entry_faults:
  "vdu_sys_audio accepting_ops example_audio_consts
       (top_level [0, 5, 4, 9, 0, 1, 0] [] (\<lambda>k. None) ((\<lambda>k. None)(9 \<mapsto> Null_sample)) (\<lambda>c. Idle))
     = (Crashed NullPointerDereference,
        top_level [] [] (\<lambda>k. None) ((\<lambda>k. None)(9 \<mapsto> Null_sample)) (\<lambda>c. Idle))"
  by (simp add: vdu_sys_audio_def vdu_sys_audio_sample_def reading_def readByte_t_def
      readWord_t_def AUDIO_CMD_defs example_audio_consts_def top_level_def Let_def
      reply_or_fault_def setSampleFrequency_def)

subsection \<open>RESET of a channel\<close>

text \<open>
  Claim C9, as amended. The RESET audio command returns a channel that is Idle, Playing
  or Releasing to Idle and sends status 1. A Disabled channel stays Disabled: RESET
  changes no channel and sends status 0.
\<close>

theorem audio_reset_enabled_channel:
  assumes "readByte_t s = (channel, s1)" and "channel \<noteq> - 1"
    and "readByte_t s1 = (AUDIO_CMD_RESET, s2)"
  shows "(channels s (nat channel) \<noteq> Disabled \<longrightarrow>
            vdu_sys_audio ops A s =
              (Completed, s2\<lparr>channels := (channels s)(nat channel := Idle),
                             sent := sent s @ [(PACKET_AUDIO, [word_of_int channel, 1])]\<rparr>))
       \<and> (channels s (nat channel) = Disabled \<longrightarrow>
            vdu_sys_audio ops A s =
              (Completed, s2\<lparr>sent := sent s @ [(PACKET_AUDIO, [word_of_int channel, 0])]\<rparr>)
          \<and> channels s2 = channels s)"
proof -
  have n: "AUDIO_CMD_RESET \<noteq> - 1"
    by (simp add: AUDIO_CMD_RESET_def)
  have i: "only_input s s2"
    by (rule only_input_trans [OF readByte_t_only_input [OF assms(1)]
          readByte_t_only_input [OF assms(3)]])
  note fr = only_input_fields [OF i]
  show ?thesis
    unfolding vdu_sys_audio_def reading_ok [OF assms(1,2)] reading_ok [OF assms(3) n]
    by (simp add: AUDIO_CMD_defs fr channelEnabled_def enableChannel_def audioTaskKill_def
        reply_def sendAudioStatus_def send_packet_def)
qed

theorem audio_reset_witness:
  "vdu_sys_audio accepting_ops example_audio_consts
       (top_level [3, 10] [] (\<lambda>k. None) (\<lambda>k. None) ((\<lambda>c. Disabled)(3 := Playing)))
     = (Completed, (top_level [] [] (\<lambda>k. None) (\<lambda>k. None) ((\<lambda>c. Disabled)(3 := Idle)))
                     \<lparr>sent := [(PACKET_AUDIO, [3, 1])]\<rparr>)"
proof -
  let ?s = "top_level [3, 10] [] (\<lambda>k. None) (\<lambda>k. None) ((\<lambda>c. Disabled)(3 := Playing))"
  have 1: "readByte_t ?s = (3, ?s\<lparr>inputStream := Serial [10]\<rparr>)"
    by (simp add: readByte_t_def top_level_def)
  have 2: "(3::int) \<noteq> - 1" by simp
  have 3: "readByte_t (?s\<lparr>inputStream := Serial [10]\<rparr>) = (AUDIO_CMD_RESET, ?s\<lparr>inputStream := Serial []\<rparr>)"
    by (simp add: readByte_t_def top_level_def AUDIO_CMD_RESET_def)
  show ?thesis
    using audio_reset_enabled_channel [OF 1 2 3, of accepting_ops example_audio_consts]
    by (simp add: top_level_def)
qed

text \<open>
  The claim as stated fails: RESET for channel 3, which is Disabled, leaves it Disabled
  and sends status 0.
\<close>

theorem audio_reset_counterexample:
  "channels (snd (vdu_sys_audio accepting_ops example_audio_consts
       (top_level [3, 10] [] (\<lambda>k. None) (\<lambda>k. None) (\<lambda>c. Disabled)))) 3 = Disabled
   \<and> sent (snd (vdu_sys_audio accepting_ops example_audio_consts
       (top_level [3, 10] [] (\<lambda>k. None) (\<lambda>k. None) (\<lambda>c. Disabled)))) = [(PACKET_AUDIO, [3, 0])]"
  by (simp add: vdu_sys_audio_def reading_def readByte_t_def AUDIO_CMD_defs top_level_def
      channelEnabled_def sendAudioStatus_def send_packet_def)

end
